theory Spec2Isabelle
  imports Complex_Main "HOL-Library.AList"
begin

section \<open>The expiring cache (package config)\<close>

text \<open>
  Instants and durations are counted in nanoseconds. Go's \<^verbatim>\<open>time.Time\<close> is modelled as
  an unbounded integer; \<^verbatim>\<open>time.Duration\<close> is an int64 number of nanoseconds, at most
  about 292 years, so \<^verbatim>\<open>time.Now().Add(ttl)\<close> never leaves the range of
  \<^verbatim>\<open>time.Time\<close> and is plain addition. \<^verbatim>\<open>t.After(u)\<close> is the strict order.
\<close>

type_synonym time = int
type_synonym duration = int

definition After :: "time \<Rightarrow> time \<Rightarrow> bool" where
  "After t u = (u < t)"

definition Add :: "time \<Rightarrow> duration \<Rightarrow> time" where
  "Add t d = t + d"

text \<open>A byte slice is a \<open>string\<close> (a list of 8-bit characters); the nil slice is \<open>[]\<close>.\<close>

type_synonym bytes = string

record CacheEntry =
  Response :: bytes
  ExpiresAt :: time

text \<open>The field \<^verbatim>\<open>cache map[string]CacheEntry\<close>; \<^verbatim>\<open>NewVerificationCache\<close> makes it empty.\<close>

type_synonym VerificationCache = "string \<rightharpoonup> CacheEntry"

definition NewVerificationCache :: VerificationCache where
  "NewVerificationCache = Map.empty"

text \<open>
  \<^verbatim>\<open>Set\<close>, named \<open>Set_entry\<close> here, run at instant \<open>now\<close> (the value of
  \<^verbatim>\<open>time.Now()\<close> inside the lock).
\<close>

definition Set_entry :: "time \<Rightarrow> VerificationCache \<Rightarrow> string \<Rightarrow> bytes \<Rightarrow> duration \<Rightarrow> VerificationCache" where
  "Set_entry now c requestID response ttl =
     c(requestID \<mapsto> \<lparr>Response = response, ExpiresAt = Add now ttl\<rparr>)"

text \<open>
  \<^verbatim>\<open>Get\<close> returns the pair \<^verbatim>\<open>([]byte, bool)\<close> and, on an expired entry, starts a
  goroutine that will delete the key later. The third component lists the keys whose
  deletion was dispatched by this call; the map itself is not changed by \<^verbatim>\<open>Get\<close>.
\<close>

record get_result =
  ret_value :: bytes
  ret_found :: bool
  dispatched :: "string list"

definition Get :: "time \<Rightarrow> VerificationCache \<Rightarrow> string \<Rightarrow> get_result" where
  "Get now c requestID =
     (case c requestID of
        None \<Rightarrow> \<lparr>ret_value = [], ret_found = False, dispatched = []\<rparr>
      | Some entry \<Rightarrow>
          if After now (ExpiresAt entry)
          then \<lparr>ret_value = [], ret_found = False, dispatched = [requestID]\<rparr>
          else \<lparr>ret_value = Response entry, ret_found = True, dispatched = []\<rparr>)"

text \<open>The body of the goroutine started by \<^verbatim>\<open>Get\<close>: an unconditional delete under the lock.\<close>

definition lazy_delete :: "VerificationCache \<Rightarrow> string \<Rightarrow> VerificationCache" where
  "lazy_delete c requestID = c(requestID := None)"

text \<open>
  \<^verbatim>\<open>Cleanup\<close> ranges over the map and deletes the current key when it has expired.
  \<open>keys\<close> is the order in which the \<^verbatim>\<open>range\<close> loop visits the keys (Go leaves it
  unspecified); the entry of a visited key is the one in the map at that moment, and a key
  that is no longer in the map is not visited.
\<close>

definition Cleanup_visit :: "time \<Rightarrow> string \<Rightarrow> VerificationCache \<Rightarrow> VerificationCache" where
  "Cleanup_visit now key c =
     (case c key of
        None \<Rightarrow> c
      | Some entry \<Rightarrow> if After now (ExpiresAt entry) then c(key := None) else c)"

fun Cleanup_loop :: "time \<Rightarrow> string list \<Rightarrow> VerificationCache \<Rightarrow> VerificationCache" where
  "Cleanup_loop now [] c = c"
| "Cleanup_loop now (key # keys) c = Cleanup_loop now keys (Cleanup_visit now key c)"

definition Cleanup :: "time \<Rightarrow> string list \<Rightarrow> VerificationCache \<Rightarrow> VerificationCache" where
  "Cleanup now keys c = Cleanup_loop now keys c"

section \<open>Requests, responses and the collaborators of the pipeline\<close>

text \<open>
  A decoded JSON value, as \<^verbatim>\<open>encoding/json\<close> stores it in an \<^verbatim>\<open>interface{}\<close>: nil,
  bool, float64, string, slice or map. A float64 is a rational number here. A Go map with
  string keys is an association list read with \<open>map_of\<close> and written with
  \<open>AList.update\<close>.
\<close>

datatype json =
    JNull
  | JBool bool
  | JNum rat
  | JStr string
  | JArr "json list"
  | JObj "(string \<times> json) list"

type_synonym json_map = "(string \<times> json) list"

text \<open>
  \<^verbatim>\<open>shared.VerificationRequest\<close>. A nil map and a nil slice are \<open>None\<close>; the JSON binder
  leaves a field at its zero value when the key is absent or null.
\<close>

record VerificationRequest =
  Model :: string
  RequestType :: string
  RequestParams :: "json_map option"
  RawChunks :: "json_map list option"
  RequestID :: string

text \<open>\<^verbatim>\<open>shared.VerificationResponse\<close>; its \<^verbatim>\<open>RequestID\<close> field is \<open>RespRequestID\<close> here.\<close>

record VerificationResponse =
  RespRequestID :: string
  Verified :: bool
  Error :: string
  Cause :: string
  InputTokens :: json
  ResponseTokens :: json
  GPUs :: int

text \<open>The outbound request handed to \<^verbatim>\<open>client.Do\<close>, headers in the order they were set.\<close>

record outbound =
  url :: string
  headers :: "(string \<times> string) list"
  payload :: bytes

text \<open>What \<^verbatim>\<open>client.Do\<close> followed by \<^verbatim>\<open>io.ReadAll\<close> gives; the HTTP status of the backend is never read.\<close>

datatype backend_reply =
    SendError string
  | ReadError string
  | ReplyBody bytes

text \<open>
  The libraries and collaborators the handlers call, as parameters: the configured base
  URL, \<^verbatim>\<open>encoding/json\<close> at the four types it is used at, \<^verbatim>\<open>http.NewRequest\<close> (which only
  parses the URL and returns the text of its error, if any), the backend behind
  \<^verbatim>\<open>client.Do\<close>, and the query \<^verbatim>\<open>SELECT hotkey FROM api_keys WHERE key_value = ?\<close>.
  \<open>Inl\<close> carries the text of the Go error. \<^verbatim>\<open>json.Unmarshal\<close> into a map returns no
  error and leaves the map nil (\<open>None\<close>) on the document \<^verbatim>\<open>null\<close>.
\<close>

record env =
  HaproxyURL :: string
  json_Unmarshal_response :: "bytes \<Rightarrow> string + VerificationResponse"
  json_Marshal_response :: "VerificationResponse \<Rightarrow> string + bytes"
  json_Marshal_request :: "VerificationRequest \<Rightarrow> string + bytes"
  json_Unmarshal_map :: "bytes \<Rightarrow> string + json_map option"
  http_NewRequest :: "string \<Rightarrow> string option"
  client_Do :: "outbound \<Rightarrow> backend_reply"
  QueryRow_hotkey :: "string \<Rightarrow> string + string"

text \<open>
  The inbound request as the handler sees it: the value of the \<^verbatim>\<open>Authorization\<close> header
  (empty when absent) and the result of \<^verbatim>\<open>c.Bind(&request)\<close>.
\<close>

record inbound =
  Authorization :: string
  Bound :: "string + VerificationRequest"

text \<open>What a handler does besides answering, in order.\<close>

datatype event =
    KeyQuery string
  | KeyTouch string
  | CacheGet string
  | DeleteDispatched string
  | CacheSet string bytes duration
  | BackendCall outbound

text \<open>
  The body written by the handler: the map \<^verbatim>\<open>{"verified": false, "error": msg}\<close>, a
  \<^verbatim>\<open>VerificationResponse\<close> given to \<^verbatim>\<open>c.JSON\<close>, raw bytes given to \<^verbatim>\<open>c.JSONBlob\<close>, or the
  text written by the recovery middleware of \<^verbatim>\<open>server.go\<close> after a panic.
\<close>

datatype reply_body =
    ErrorEnvelope string
  | ResponseJSON VerificationResponse
  | RawJSON bytes
  | PlainText string

record outcome =
  http_status :: nat
  http_body :: reply_body
  events :: "event list"
  cache_after :: VerificationCache

section \<open>Field validation and authentication (package routes)\<close>

definition validateRequiredFields :: "VerificationRequest \<Rightarrow> string \<times> bool" where
  "validateRequiredFields request =
     (if Model request = [] then (''model'', True)
      else if RequestType request = [] then (''request_type'', True)
      else if RequestParams request = None then (''request_params'', True)
      else if RawChunks request = None then (''raw_chunks'', True)
      else ([], False))"

text \<open>\<^verbatim>\<open>strings.Split(s, " ")\<close> for a separator of one byte: one part more than separators.\<close>

fun Split :: "string \<Rightarrow> char \<Rightarrow> string list" where
  "Split [] sep = [[]]"
| "Split (x # xs) sep =
     (if x = sep then [] # Split xs sep
      else (case Split xs sep of [] \<Rightarrow> [[x]] | p # ps \<Rightarrow> (x # p) # ps))"

text \<open>
  \<^verbatim>\<open>strings.ToLower\<close> on the bytes \<^verbatim>\<open>A\<close> to \<^verbatim>\<open>Z\<close>. Bytes outside ASCII are left as they
  are: Go maps those runes by the Unicode tables, and no rune outside ASCII has one of
  \<^verbatim>\<open>b\<close>, \<^verbatim>\<open>e\<close>, \<^verbatim>\<open>a\<close>, \<^verbatim>\<open>r\<close> as its lower case, so the comparison with \<^verbatim>\<open>"bearer"\<close>, the only
  use of the result, is the same.
\<close>

definition lower_byte :: "char \<Rightarrow> char" where
  "lower_byte c =
     (case map_of (zip ''ABCDEFGHIJKLMNOPQRSTUVWXYZ'' ''abcdefghijklmnopqrstuvwxyz'') c of
        None \<Rightarrow> c
      | Some l \<Rightarrow> l)"

definition ToLower :: "string \<Rightarrow> string" where
  "ToLower s = map lower_byte s"

text \<open>
  \<^verbatim>\<open>validateAPIKey\<close> returns \<^verbatim>\<open>(false, err)\<close>, here \<open>Some\<close> of the error text, or
  \<^verbatim>\<open>(true, nil)\<close>, here \<open>None\<close>, with the accesses to the key store it made. A failed
  update of \<^verbatim>\<open>last_used_at\<close> is only logged.
\<close>

definition validateAPIKey :: "env \<Rightarrow> string \<Rightarrow> string option \<times> event list" where
  "validateAPIKey e authHeader =
     (if authHeader = [] then (Some ''authorization required'', [])
      else
        let parts = Split authHeader CHR '' '' in
        if length parts \<noteq> 2 \<or> ToLower (parts ! 0) \<noteq> ''bearer''
        then (Some ''invalid authorization format'', [])
        else
          let apiKey = parts ! 1 in
          (case QueryRow_hotkey e apiKey of
             Inl err \<Rightarrow> (Some ''invalid API key'', [KeyQuery apiKey])
           | Inr hotkey \<Rightarrow> (None, [KeyQuery apiKey, KeyTouch hotkey])))"

section \<open>Forwarding to the backend\<close>

text \<open>
  The result of \<^verbatim>\<open>forwardToValis\<close>: an error with its text, a run-time panic, or the
  value returned with a nil error (never a nil pointer or a nil slice:
  \<^verbatim>\<open>io.ReadAll\<close> returns an allocated slice).
\<close>

datatype 'a forwarded =
    Failed string
  | Panicked string
  | Forwarded 'a

text \<open>
  The conversion \<^verbatim>\<open>int(gpus)\<close> of a float64 discards the fraction. (For a value outside
  the range of \<^verbatim>\<open>int\<close> Go leaves the result to the implementation.)
\<close>

definition float64_to_int :: "rat \<Rightarrow> int" where
  "float64_to_int x = (if x < 0 then - \<lfloor>- x\<rfloor> else \<lfloor>x\<rfloor>)"

text \<open>Indexing a map with a missing key gives the nil interface.\<close>

definition index_map :: "json_map \<Rightarrow> string \<Rightarrow> json" where
  "index_map m k = (case map_of m k of None \<Rightarrow> JNull | Some v \<Rightarrow> v)"

text \<open>Lines 344 to 363 of the path-suffix variant: the typed response built from the map.\<close>

definition response_of_map :: "VerificationRequest \<Rightarrow> json_map \<Rightarrow> VerificationResponse" where
  "response_of_map req responseMap =
     \<lparr>RespRequestID = RequestID req,
      Verified = (case index_map responseMap ''verified'' of JBool verified \<Rightarrow> verified | _ \<Rightarrow> False),
      Error = (case index_map responseMap ''error'' of JStr errorMsg \<Rightarrow> errorMsg | _ \<Rightarrow> []),
      Cause = (case index_map responseMap ''cause'' of JStr cause \<Rightarrow> cause | _ \<Rightarrow> []),
      InputTokens = index_map responseMap ''input_tokens'',
      ResponseTokens = index_map responseMap ''response_tokens'',
      GPUs = (case index_map responseMap ''gpus'' of JNum gpus \<Rightarrow> float64_to_int gpus | _ \<Rightarrow> 0)\<rparr>"

text \<open>
  Lines 332 to 365: the body is decoded into a map; a map without the key
  \<^verbatim>\<open>verified\<close> gets \<^verbatim>\<open>verified = false\<close> and an explanatory \<^verbatim>\<open>error\<close>. On the document
  \<^verbatim>\<open>null\<close> the map is nil and the assignment panics.
\<close>

definition parse_backend_body :: "env \<Rightarrow> VerificationRequest \<Rightarrow> bytes \<Rightarrow> VerificationResponse forwarded" where
  "parse_backend_body e req body =
     (case json_Unmarshal_map e body of
        Inl err \<Rightarrow> Failed (''failed to parse response: '' @ err)
      | Inr None \<Rightarrow> Panicked ''assignment to entry in nil map''
      | Inr (Some responseMap) \<Rightarrow>
          (if map_of responseMap ''verified'' = None
           then Forwarded (response_of_map req
                  (AList.update ''error'' (JStr ''Verification service response missing 'verified' field'')
                     (AList.update ''verified'' (JBool False) responseMap)))
           else Forwarded (response_of_map req responseMap)))"

text \<open>The path-suffix variant chooses the path by the model, lines 299 to 308.\<close>

definition backendPath_of :: "string \<Rightarrow> string option" where
  "backendPath_of model =
     (if model = ''deepseek-ai/DeepSeek-R1'' then Some ''/r1/verify''
      else if model = ''deepseek-ai/DeepSeek-V3'' then Some ''/v3/verify''
      else None)"

definition forwardToValis_path :: "env \<Rightarrow> VerificationRequest \<Rightarrow> VerificationResponse forwarded \<times> event list" where
  "forwardToValis_path e req =
     (case json_Marshal_request e req of
        Inl err \<Rightarrow> (Failed (''failed to prepare request: '' @ err), [])
      | Inr requestBody \<Rightarrow>
          (case backendPath_of (Model req) of
             None \<Rightarrow> (Failed (''unsupported model: '' @ Model req), [])
           | Some backendPath \<Rightarrow>
               let backendURL = HaproxyURL e @ backendPath in
               (case http_NewRequest e backendURL of
                  Some err \<Rightarrow> (Failed (''failed to create request: '' @ err), [])
                | None \<Rightarrow>
                    let httpReq = \<lparr>url = backendURL,
                                   headers = [(''Content-Type'', ''application/json'')],
                                   payload = requestBody\<rparr> in
                    (case client_Do e httpReq of
                       SendError err \<Rightarrow>
                         (Failed (''failed to send request to backend: '' @ err), [BackendCall httpReq])
                     | ReadError err \<Rightarrow>
                         (Failed (''failed to read response body: '' @ err), [BackendCall httpReq])
                     | ReplyBody body \<Rightarrow>
                         (parse_backend_body e req body, [BackendCall httpReq])))))"

text \<open>
  The header variant builds the request for the one endpoint first and then chooses the
  value of the header \<^verbatim>\<open>x-backend-server\<close> by the model, lines 549 to 564; it returns the
  body of the reply as it is.
\<close>

definition backendServer_of :: "string \<Rightarrow> string option" where
  "backendServer_of model =
     (if model = ''deepseek-ai/DeepSeek-R1'' then Some ''r1''
      else if model = ''deepseek-ai/DeepSeek-V3'' then Some ''v3''
      else None)"

definition forwardToValis_hdr :: "env \<Rightarrow> VerificationRequest \<Rightarrow> bytes forwarded \<times> event list" where
  "forwardToValis_hdr e req =
     (case json_Marshal_request e req of
        Inl err \<Rightarrow> (Failed (''failed to prepare request: '' @ err), [])
      | Inr requestBody \<Rightarrow>
          let backendURL = HaproxyURL e @ ''/verify'' in
          (case http_NewRequest e backendURL of
             Some err \<Rightarrow> (Failed (''failed to create request: '' @ err), [])
           | None \<Rightarrow>
               (case backendServer_of (Model req) of
                  None \<Rightarrow> (Failed (''unsupported model: '' @ Model req), [])
                | Some server \<Rightarrow>
                    let httpReq = \<lparr>url = backendURL,
                                   headers = [(''x-backend-server'', server),
                                              (''Content-Type'', ''application/json'')],
                                   payload = requestBody\<rparr> in
                    (case client_Do e httpReq of
                       SendError err \<Rightarrow>
                         (Failed (''failed to send request to backend: '' @ err), [BackendCall httpReq])
                     | ReadError err \<Rightarrow>
                         (Failed (''failed to read response body: '' @ err), [BackendCall httpReq])
                     | ReplyBody body \<Rightarrow> (Forwarded body, [BackendCall httpReq])))))"

section \<open>The handler \<^verbatim>\<open>Verify\<close>\<close>

text \<open>\<^verbatim>\<open>72*time.Minute\<close> in nanoseconds.\<close>

definition cache_ttl :: duration where
  "cache_ttl = 72 * 60 * 1000000000"

text \<open>
  The handler from the call of \<^verbatim>\<open>forwardToValis\<close> to its end (lines 179 to 212 and 443
  to 462), reached when there is no request id, on a cache miss, and on a cached value that
  does not decode. \<open>evs\<close> are the events so far, \<open>t_set\<close> the instant at which \<open>Set\<close>
  would run. \<open>http_status\<close> and \<open>http_body\<close> are the arguments of the call that writes the answer;
  a panic is answered by the recovery middleware of \<^verbatim>\<open>server.go\<close>.
\<close>

definition forward_and_respond_path ::
  "env \<Rightarrow> time \<Rightarrow> VerificationCache \<Rightarrow> VerificationRequest \<Rightarrow> event list \<Rightarrow> outcome" where
  "forward_and_respond_path e t_set c request evs =
     (case forwardToValis_path e request of
        (Failed err, fevs) \<Rightarrow>
          \<lparr>http_status = 500, http_body = ErrorEnvelope (''Verification service error: '' @ err),
           events = evs @ fevs, cache_after = c\<rparr>
      | (Panicked msg, fevs) \<Rightarrow>
          \<lparr>http_status = 500, http_body = PlainText ''Internal Server Error'',
           events = evs @ fevs, cache_after = c\<rparr>
      | (Forwarded response, fevs) \<Rightarrow>
          (if RequestID request \<noteq> [] then
             (case json_Marshal_response e response of
                Inl err \<Rightarrow>
                  \<lparr>http_status = 200, http_body = ResponseJSON response,
                   events = evs @ fevs, cache_after = c\<rparr>
              | Inr responseBytes \<Rightarrow>
                  \<lparr>http_status = 200, http_body = ResponseJSON response,
                   events = evs @ fevs @ [CacheSet (RequestID request) responseBytes cache_ttl],
                   cache_after = Set_entry t_set c (RequestID request) responseBytes cache_ttl\<rparr>)
           else
             \<lparr>http_status = 200, http_body = ResponseJSON response,
              events = evs @ fevs, cache_after = c\<rparr>))"

definition forward_and_respond_hdr ::
  "env \<Rightarrow> time \<Rightarrow> VerificationCache \<Rightarrow> VerificationRequest \<Rightarrow> event list \<Rightarrow> outcome" where
  "forward_and_respond_hdr e t_set c request evs =
     (case forwardToValis_hdr e request of
        (Failed err, fevs) \<Rightarrow>
          \<lparr>http_status = 500, http_body = ErrorEnvelope (''Verification service error: '' @ err),
           events = evs @ fevs, cache_after = c\<rparr>
      | (Panicked msg, fevs) \<Rightarrow>
          \<lparr>http_status = 500, http_body = PlainText ''Internal Server Error'',
           events = evs @ fevs, cache_after = c\<rparr>
      | (Forwarded response, fevs) \<Rightarrow>
          (if RequestID request \<noteq> [] then
             \<lparr>http_status = 200, http_body = RawJSON response,
              events = evs @ fevs @ [CacheSet (RequestID request) response cache_ttl],
              cache_after = Set_entry t_set c (RequestID request) response cache_ttl\<rparr>
           else
             \<lparr>http_status = 200, http_body = RawJSON response,
              events = evs @ fevs, cache_after = c\<rparr>))"

text \<open>
  \<^verbatim>\<open>Verify\<close>, with the continuation of the variant as a parameter: both variants are the
  same text up to the call of \<^verbatim>\<open>forwardToValis\<close> (lines 119 to 177 and 383 to 441).
  \<open>t_get\<close> is the instant at which \<open>Get\<close> runs.
\<close>

definition Verify_upto_forward ::
  "(env \<Rightarrow> time \<Rightarrow> VerificationCache \<Rightarrow> VerificationRequest \<Rightarrow> event list \<Rightarrow> outcome)
   \<Rightarrow> env \<Rightarrow> time \<Rightarrow> time \<Rightarrow> VerificationCache \<Rightarrow> inbound \<Rightarrow> outcome" where
  "Verify_upto_forward continue e t_get t_set c http =
     (case Bound http of
        Inl err \<Rightarrow>
          \<lparr>http_status = 400, http_body = ErrorEnvelope ''Invalid request format'',
           events = [], cache_after = c\<rparr>
      | Inr request \<Rightarrow>
          (case validateRequiredFields request of
             (missingField, True) \<Rightarrow>
               \<lparr>http_status = 400, http_body = ErrorEnvelope (''Missing required field: '' @ missingField),
                events = [], cache_after = c\<rparr>
           | (missingField, False) \<Rightarrow>
               (case validateAPIKey e (Authorization http) of
                  (Some err, kevs) \<Rightarrow>
                    \<lparr>http_status = 401, http_body = ErrorEnvelope err, events = kevs, cache_after = c\<rparr>
                | (None, kevs) \<Rightarrow>
                    (if RequestID request \<noteq> [] then
                       let g = Get t_get c (RequestID request);
                           evs = kevs @ [CacheGet (RequestID request)]
                                      @ map DeleteDispatched (dispatched g)
                       in
                         if ret_found g then
                           (case json_Unmarshal_response e (ret_value g) of
                              Inl err \<Rightarrow> continue e t_set c request evs
                            | Inr response \<Rightarrow>
                                \<lparr>http_status = 200, http_body = ResponseJSON response,
                                 events = evs, cache_after = c\<rparr>)
                         else continue e t_set c request evs
                     else continue e t_set c request kevs))))"

definition Verify_path :: "env \<Rightarrow> time \<Rightarrow> time \<Rightarrow> VerificationCache \<Rightarrow> inbound \<Rightarrow> outcome" where
  "Verify_path = Verify_upto_forward forward_and_respond_path"

definition Verify_hdr :: "env \<Rightarrow> time \<Rightarrow> time \<Rightarrow> VerificationCache \<Rightarrow> inbound \<Rightarrow> outcome" where
  "Verify_hdr = Verify_upto_forward forward_and_respond_hdr"

section \<open>A small environment for running the handlers\<close>

text \<open>
  Stand-ins for the collaborators, used to evaluate the handlers on concrete requests:
  a key store that knows the one key \<^verbatim>\<open>secret\<close> of the hotkey \<^verbatim>\<open>alice\<close>, a backend
  that answers \<^verbatim>\<open>{}\<close> to every call, decoders and an encoder of responses defined on the
  few values used (on these they agree with \<^verbatim>\<open>encoding/json\<close>, and they fail on every
  other value), an encoder of requests that is right for
  requests with empty parameters and chunks and strings that need no escaping, and a
  \<^verbatim>\<open>http.NewRequest\<close> that accepts a URL with the scheme \<^verbatim>\<open>http://\<close> and refuses any other
  with the error \<^verbatim>\<open>url.Parse\<close> gives for an address and port written without a scheme, such
  as \<^verbatim>\<open>10.0.0.5:8080/verify\<close>, the only other kind of URL it is used on.
\<close>

definition zero_response :: VerificationResponse where
  "zero_response =
     \<lparr>RespRequestID = [], Verified = False, Error = [], Cause = [],
      InputTokens = JNull, ResponseTokens = JNull, GPUs = 0\<rparr>"

definition demo_Unmarshal_response :: "bytes \<Rightarrow> string + VerificationResponse" where
  "demo_Unmarshal_response b =
     (if b = ''{\"verified\":true}'' then Inr (zero_response\<lparr>Verified := True\<rparr>)
      else if b = ''{\"verified\":false}'' \<or> b = ''{}'' then Inr zero_response
      else Inl ''invalid character'')"

definition demo_Marshal_response :: "VerificationResponse \<Rightarrow> string + bytes" where
  "demo_Marshal_response r =
     (if r = zero_response\<lparr>Verified := True\<rparr> then Inr ''{\"verified\":true}''
      else if r = zero_response then Inr ''{\"verified\":false}''
      else Inl ''json: unsupported value'')"

definition demo_Marshal_request :: "VerificationRequest \<Rightarrow> string + bytes" where
  "demo_Marshal_request r =
     Inr (''{\"model\":\"'' @ Model r @ ''\",\"request_type\":\"'' @ RequestType r
          @ ''\",\"request_params\":{},\"raw_chunks\":[]''
          @ (if RequestID r = [] then [] else '',\"request_id\":\"'' @ RequestID r @ ''\"'')
          @ ''}'')"

definition demo_Unmarshal_map :: "bytes \<Rightarrow> string + json_map option" where
  "demo_Unmarshal_map b =
     (if b = ''{}'' then Inr (Some [])
      else if b = ''{\"verified\":true}'' then Inr (Some [(''verified'', JBool True)])
      else if b = ''null'' then Inr None
      else Inl ''invalid character'')"

definition demo_NewRequest :: "string \<Rightarrow> string option" where
  "demo_NewRequest u =
     (if take 7 u = ''http://'' then None
      else Some (''parse \"'' @ u @ ''\": first path segment in URL cannot contain colon''))"

definition demo_QueryRow :: "string \<Rightarrow> string + string" where
  "demo_QueryRow k = (if k = ''secret'' then Inr ''alice'' else Inl ''sql: no rows in result set'')"

definition demo_env :: "string \<Rightarrow> env" where
  "demo_env base =
     \<lparr>HaproxyURL = base,
      json_Unmarshal_response = demo_Unmarshal_response,
      json_Marshal_response = demo_Marshal_response,
      json_Marshal_request = demo_Marshal_request,
      json_Unmarshal_map = demo_Unmarshal_map,
      http_NewRequest = demo_NewRequest,
      client_Do = (\<lambda>req. ReplyBody ''{}''),
      QueryRow_hotkey = demo_QueryRow\<rparr>"

definition demo_request :: "string \<Rightarrow> string \<Rightarrow> VerificationRequest" where
  "demo_request model requestID =
     \<lparr>Model = model, RequestType = ''completion'', RequestParams = Some [],
      RawChunks = Some [], RequestID = requestID\<rparr>"

section \<open>Notions of the specification\<close>

text \<open>
  Field validation as the specification words it: the required fields in their fixed
  order, by the names the handler reports (the JSON names of the fields \<open>model\<close>,
  \<open>requestType\<close>, \<open>requestParams\<close> and \<open>rawChunks\<close>), and the first of them that is
  missing. A field of the decoded request is missing when it has its zero value: the
  empty string, the nil map, the nil slice.
\<close>

definition is_missing :: "VerificationRequest \<Rightarrow> string \<Rightarrow> bool" where
  "is_missing request name =
     (if name = ''model'' then Model request = []
      else if name = ''request_type'' then RequestType request = []
      else if name = ''request_params'' then RequestParams request = None
      else if name = ''raw_chunks'' then RawChunks request = None
      else False)"

definition first_missing :: "VerificationRequest \<Rightarrow> string option" where
  "first_missing request =
     find (is_missing request) [''model'', ''request_type'', ''request_params'', ''raw_chunks'']"

text \<open>Authentication proceeds to the credential lookup: the key store is queried.\<close>

definition is_KeyQuery :: "event \<Rightarrow> bool" where
  "is_KeyQuery ev = (case ev of KeyQuery apiKey \<Rightarrow> True | _ \<Rightarrow> False)"

definition proceeds_to_lookup :: "env \<Rightarrow> string \<Rightarrow> bool" where
  "proceeds_to_lookup e h = list_ex is_KeyQuery (snd (validateAPIKey e h))"

text \<open>Calls of the backend and writes to the cache among the events of a handler.\<close>

definition is_BackendCall :: "event \<Rightarrow> bool" where
  "is_BackendCall ev = (case ev of BackendCall req \<Rightarrow> True | _ \<Rightarrow> False)"

definition is_CacheSet :: "event \<Rightarrow> bool" where
  "is_CacheSet ev = (case ev of CacheSet k v ttl \<Rightarrow> True | _ \<Rightarrow> False)"

text \<open>What a caller and the collaborators can observe of a run: the answer and the events.\<close>

definition answer_and_effects :: "outcome \<Rightarrow> nat \<times> reply_body \<times> event list" where
  "answer_and_effects out = (http_status out, http_body out, events out)"

text \<open>
  The handler gets as far as \<^verbatim>\<open>forwardToValis\<close>: there is no request id, or \<open>Get\<close> finds
  nothing, or what it finds does not decode. The events up to that point.
\<close>

definition reaches_forwarding :: "env \<Rightarrow> time \<Rightarrow> VerificationCache \<Rightarrow> VerificationRequest \<Rightarrow> bool" where
  "reaches_forwarding e t_get c request =
     (RequestID request = [] \<or>
      \<not> ret_found (Get t_get c (RequestID request)) \<or>
      isl (json_Unmarshal_response e (ret_value (Get t_get c (RequestID request)))))"

definition events_before_forwarding :: "event list \<Rightarrow> time \<Rightarrow> VerificationCache \<Rightarrow> VerificationRequest \<Rightarrow> event list" where
  "events_before_forwarding kevs t_get c request =
     (if RequestID request = [] then kevs
      else kevs @ [CacheGet (RequestID request)]
                @ map DeleteDispatched (dispatched (Get t_get c (RequestID request))))"

section \<open>The cache under concurrent use\<close>

text \<open>
  Every method of the cache runs its body under the mutex (\<^verbatim>\<open>Lock\<close> for \<open>Set\<close>,
  \<open>Cleanup\<close> and the deferred delete, \<^verbatim>\<open>RLock\<close> for \<open>Get\<close>, which only reads), and reads
  the clock inside. A concurrent execution is therefore a sequence of these bodies, each
  at its instant, in the order in which they held the lock. The goroutine that \<open>Get\<close>
  starts on an expired entry is a body of its own, \<open>RunDelete\<close>: it runs at any later
  point, once for each time it was dispatched. \<open>pending\<close> holds the dispatched deletions
  that have not run yet; \<open>run\<close> collects the results of the \<open>Get\<close>s and is \<open>None\<close> for a
  sequence that runs a deletion nobody dispatched.
\<close>

datatype action =
    DoSet string bytes duration
  | DoGet string
  | DoCleanup "string list"
  | RunDelete string

record system =
  store :: VerificationCache
  pending :: "string list"

definition step :: "time \<Rightarrow> action \<Rightarrow> system \<Rightarrow> (get_result list \<times> system) option" where
  "step now a s =
     (case a of
        DoSet k v ttl \<Rightarrow> Some ([], s\<lparr>store := Set_entry now (store s) k v ttl\<rparr>)
      | DoGet k \<Rightarrow>
          (let g = Get now (store s) k in Some ([g], s\<lparr>pending := pending s @ dispatched g\<rparr>))
      | DoCleanup keys \<Rightarrow> Some ([], s\<lparr>store := Cleanup now keys (store s)\<rparr>)
      | RunDelete k \<Rightarrow>
          (if k \<in> set (pending s)
           then Some ([], s\<lparr>store := lazy_delete (store s) k, pending := remove1 k (pending s)\<rparr>)
           else None))"

fun run :: "(time \<times> action) list \<Rightarrow> system \<Rightarrow> (get_result list \<times> system) option" where
  "run [] s = Some ([], s)"
| "run ((now, a) # rest) s =
     (case step now a s of
        None \<Rightarrow> None
      | Some (out, s') \<Rightarrow>
          (case run rest s' of
             None \<Rightarrow> None
           | Some (outs, s'') \<Rightarrow> Some (out @ outs, s'')))"

section \<open>Cache properties\<close>

lemma Cleanup_loop_lookup:
  "Cleanup_loop now keys c k =
     (case c k of
        None \<Rightarrow> None
      | Some e \<Rightarrow> if k \<in> set keys \<and> ExpiresAt e < now then None else Some e)"
  by (induction keys arbitrary: c)
     (auto simp: Cleanup_visit_def After_def split: option.splits)


text \<open>
  Claim C1, as amended. \<^verbatim>\<open>Get\<close> tests \<^verbatim>\<open>time.Now().After(entry.ExpiresAt)\<close>, so an
  entry is returned as long as the clock has not passed its expiry: \<open>Get\<close> finds a value
  exactly when the key has an entry with \<open>now \<le> ExpiresAt\<close>, the value found is that
  entry's response, and an entry whose expiry lies strictly in the past is reported as not
  found although it is still in the map (\<open>Get\<close> itself removes nothing).
\<close>

theorem Get_found_iff_not_after:
  "(ret_found (Get now c k) \<longleftrightarrow> (\<exists>e. c k = Some e \<and> now \<le> ExpiresAt e)) \<and>
   (\<forall>e. c k = Some e \<and> now \<le> ExpiresAt e \<longrightarrow> ret_value (Get now c k) = Response e) \<and>
   (\<forall>e. c k = Some e \<and> ExpiresAt e < now \<longrightarrow>
        \<not> ret_found (Get now c k) \<and> ret_value (Get now c k) = [])"
  by (auto simp: Get_def After_def split: option.splits)

theorem Get_found_iff_not_after_witness:
  "ret_found (Get 4 [''k'' \<mapsto> \<lparr>Response = ''v'', ExpiresAt = 5\<rparr>] ''k'') \<and>
   ret_value (Get 4 [''k'' \<mapsto> \<lparr>Response = ''v'', ExpiresAt = 5\<rparr>] ''k'') = ''v'' \<and>
   \<not> ret_found (Get 6 [''k'' \<mapsto> \<lparr>Response = ''v'', ExpiresAt = 5\<rparr>] ''k'') \<and>
   [''k'' \<mapsto> \<lparr>Response = ''v'', ExpiresAt = 5\<rparr>] ''k'' \<noteq> None"
  using Get_found_iff_not_after [of 4 "[''k'' \<mapsto> \<lparr>Response = ''v'', ExpiresAt = 5\<rparr>]" "''k''"]
        Get_found_iff_not_after [of 6 "[''k'' \<mapsto> \<lparr>Response = ''v'', ExpiresAt = 5\<rparr>]" "''k''"]
  by simp

text \<open>
  Claim C1 as stated fails at the instant of expiry: with \<open>now = ExpiresAt = 5\<close> the
  clock is not strictly before the expiry, yet \<open>Get\<close> returns the value with
  \<open>found = true\<close>.
\<close>

theorem Get_at_expiry_counterexample:
  "ret_found (Get 5 [''k'' \<mapsto> \<lparr>Response = ''v'', ExpiresAt = 5\<rparr>] ''k'') \<and>
   ret_value (Get 5 [''k'' \<mapsto> \<lparr>Response = ''v'', ExpiresAt = 5\<rparr>] ''k'') = ''v'' \<and>
   \<not> (5 < ExpiresAt \<lparr>Response = ''v'', ExpiresAt = 5\<rparr>)"
  by (simp add: Get_def After_def)

text \<open>
  Claim C2. For a positive TTL, \<open>Set\<close> at instant \<open>now\<close> stores under \<open>k\<close> the entry
  with response \<open>v\<close> and \<open>ExpiresAt = now + ttl\<close>, whatever the map held for \<open>k\<close>
  before, and leaves every other key alone; a \<open>Get\<close> of \<open>k\<close> at the same instant, or at
  any later instant up to the expiry, returns \<open>(v, true)\<close> and dispatches no deletion.
\<close>

theorem Set_then_Get:
  assumes "0 < ttl"
  shows "Set_entry now c k v ttl k = Some \<lparr>Response = v, ExpiresAt = now + ttl\<rparr> \<and>
         (\<forall>k'. k' \<noteq> k \<longrightarrow> Set_entry now c k v ttl k' = c k') \<and>
         Get now (Set_entry now c k v ttl) k = \<lparr>ret_value = v, ret_found = True, dispatched = []\<rparr> \<and>
         (\<forall>now'. now \<le> now' \<and> now' \<le> now + ttl \<longrightarrow>
            Get now' (Set_entry now c k v ttl) k = \<lparr>ret_value = v, ret_found = True, dispatched = []\<rparr>)"
  using assms by (simp add: Set_entry_def Get_def After_def Add_def)

theorem Set_then_Get_witness:
  "(0::int) < 3 \<and>
   Get 10 (Set_entry 10 [''k'' \<mapsto> \<lparr>Response = ''old'', ExpiresAt = 2\<rparr>] ''k'' ''new'' 3) ''k''
     = \<lparr>ret_value = ''new'', ret_found = True, dispatched = []\<rparr> \<and>
   Set_entry 10 [''k'' \<mapsto> \<lparr>Response = ''old'', ExpiresAt = 2\<rparr>] ''k'' ''new'' 3 ''k''
     = Some \<lparr>Response = ''new'', ExpiresAt = 13\<rparr>"
  using Set_then_Get [of 3 10 "[''k'' \<mapsto> \<lparr>Response = ''old'', ExpiresAt = 2\<rparr>]" "''k''" "''new''"]
  by simp

text \<open>
  Claim C8, as amended. \<open>Cleanup\<close> tests \<^verbatim>\<open>now.After(entry.ExpiresAt)\<close>: when the loop
  visits exactly the keys of the map, it removes exactly the entries with
  \<open>ExpiresAt < now\<close>. Every entry with \<open>now \<le> ExpiresAt\<close> is kept unchanged (in
  particular one that expires at this very instant, which \<open>Get\<close> still returns), and no
  key is added.
\<close>

theorem Cleanup_removes_exactly_past:
  assumes "set keys = dom c"
  shows "(\<forall>e. c k = Some e \<and> ExpiresAt e < now \<longrightarrow> Cleanup now keys c k = None) \<and>
         (\<forall>e. c k = Some e \<and> now \<le> ExpiresAt e \<longrightarrow> Cleanup now keys c k = Some e) \<and>
         (c k = None \<longrightarrow> Cleanup now keys c k = None)"
proof -
  have "k \<in> set keys" if "c k = Some e" for e
    using that assms by auto
  then show ?thesis
    by (auto simp: Cleanup_def Cleanup_loop_lookup)
qed

theorem Cleanup_removes_exactly_past_witness:
  "set [''a'', ''b''] = dom [''a'' \<mapsto> \<lparr>Response = ''x'', ExpiresAt = 4\<rparr>, ''b'' \<mapsto> \<lparr>Response = ''y'', ExpiresAt = 9\<rparr>] \<and>
   Cleanup 5 [''a'', ''b''] [''a'' \<mapsto> \<lparr>Response = ''x'', ExpiresAt = 4\<rparr>, ''b'' \<mapsto> \<lparr>Response = ''y'', ExpiresAt = 9\<rparr>] ''a'' = None \<and>
   Cleanup 5 [''a'', ''b''] [''a'' \<mapsto> \<lparr>Response = ''x'', ExpiresAt = 4\<rparr>, ''b'' \<mapsto> \<lparr>Response = ''y'', ExpiresAt = 9\<rparr>] ''b''
     = Some \<lparr>Response = ''y'', ExpiresAt = 9\<rparr>"
proof -
  have d: "set [''a'', ''b''] = dom [''a'' \<mapsto> \<lparr>Response = ''x'', ExpiresAt = 4\<rparr>, ''b'' \<mapsto> \<lparr>Response = ''y'', ExpiresAt = 9\<rparr>]"
    by auto
  show ?thesis
    using d Cleanup_removes_exactly_past [OF d, of "''a''" 5] Cleanup_removes_exactly_past [OF d, of "''b''" 5]
    by simp
qed

text \<open>
  Claim C8 as stated fails at the instant of expiry: an entry with
  \<open>ExpiresAt = now = 5\<close> satisfies \<open>ExpiresAt \<le> now\<close> and survives \<open>Cleanup\<close>.
\<close>

theorem Cleanup_at_expiry_counterexample:
  "ExpiresAt \<lparr>Response = ''v'', ExpiresAt = 5\<rparr> \<le> 5 \<and>
   Cleanup 5 [''k''] [''k'' \<mapsto> \<lparr>Response = ''v'', ExpiresAt = 5\<rparr>] ''k''
     = Some \<lparr>Response = ''v'', ExpiresAt = 5\<rparr>"
  by (simp add: Cleanup_def Cleanup_visit_def After_def)


section \<open>Properties of the pipeline\<close>

subsection \<open>Splitting and lower-casing\<close>

lemma Split_no_sep: "sep \<notin> set s \<Longrightarrow> Split s sep = [s]"
  by (induction s) auto

lemma Split_at_sep: "sep \<notin> set a \<Longrightarrow> Split (a @ sep # b) sep = a # Split b sep"
  by (induction a) auto

lemma Split_not_Nil: "Split s sep \<noteq> []"
  by (induction s) (auto split: list.splits)

lemma length_Split: "length (Split s sep) = Suc (count_list s sep)"
  by (induction s) (auto split: list.splits)

lemma Split_single: "Split s sep = [a] \<Longrightarrow> s = a \<and> sep \<notin> set a"
  by (induction s arbitrary: a) (auto split: if_splits list.splits simp: Split_not_Nil)

lemma Split_pair: "Split s sep = [a, b] \<Longrightarrow> s = a @ sep # b \<and> sep \<notin> set a \<and> sep \<notin> set b"
proof (induction s arbitrary: a)
  case Nil
  then show ?case by simp
next
  case (Cons x xs)
  show ?case
  proof (cases "x = sep")
    case True
    with Cons.prems have "a = []" "Split xs sep = [b]" by auto
    with True Split_single [of xs sep b] show ?thesis by auto
  next
    case False
    with Cons.prems obtain p where "a = x # p" "Split xs sep = [p, b]"
      by (auto split: list.splits)
    with False Cons.IH [of p] show ?thesis by auto
  qed
qed

lemma Split_pair_iff:
  "Split s sep = [a, b] \<longleftrightarrow> s = a @ sep # b \<and> sep \<notin> set a \<and> sep \<notin> set b"
  using Split_pair [of s sep a b] by (auto simp: Split_at_sep Split_no_sep)

lemma lower_byte_b: "lower_byte c = CHR ''b'' \<longleftrightarrow> c = CHR ''b'' \<or> c = CHR ''B''"
  unfolding lower_byte_def by (simp split: if_splits)
lemma lower_byte_e: "lower_byte c = CHR ''e'' \<longleftrightarrow> c = CHR ''e'' \<or> c = CHR ''E''"
  unfolding lower_byte_def by (simp split: if_splits)
lemma lower_byte_a: "lower_byte c = CHR ''a'' \<longleftrightarrow> c = CHR ''a'' \<or> c = CHR ''A''"
  unfolding lower_byte_def by (simp split: if_splits)
lemma lower_byte_r: "lower_byte c = CHR ''r'' \<longleftrightarrow> c = CHR ''r'' \<or> c = CHR ''R''"
  unfolding lower_byte_def by (simp split: if_splits)

lemma map_eq_six:
  "map f s = [a1, a2, a3, a4, a5, a6] \<longleftrightarrow>
     (\<exists>c1 c2 c3 c4 c5 c6. s = [c1, c2, c3, c4, c5, c6] \<and>
        f c1 = a1 \<and> f c2 = a2 \<and> f c3 = a3 \<and> f c4 = a4 \<and> f c5 = a5 \<and> f c6 = a6)"
proof
  assume "map f s = [a1, a2, a3, a4, a5, a6]"
  then obtain c1 s1 where s: "s = c1 # s1" "f c1 = a1" "map f s1 = [a2, a3, a4, a5, a6]"
    by (cases s) auto
  then obtain c2 s2 where s1: "s1 = c2 # s2" "f c2 = a2" "map f s2 = [a3, a4, a5, a6]"
    by (cases s1) auto
  then obtain c3 s3 where s2: "s2 = c3 # s3" "f c3 = a3" "map f s3 = [a4, a5, a6]"
    by (cases s2) auto
  then obtain c4 s4 where s3: "s3 = c4 # s4" "f c4 = a4" "map f s4 = [a5, a6]"
    by (cases s3) auto
  then obtain c5 s5 where s4: "s4 = c5 # s5" "f c5 = a5" "map f s5 = [a6]"
    by (cases s4) auto
  then obtain c6 where s5: "s5 = [c6]" "f c6 = a6"
    by (cases s5) auto
  from s s1 s2 s3 s4 s5 have "s = [c1, c2, c3, c4, c5, c6]" by simp
  with s s1 s2 s3 s4 s5 show "\<exists>c1 c2 c3 c4 c5 c6. s = [c1, c2, c3, c4, c5, c6] \<and>
        f c1 = a1 \<and> f c2 = a2 \<and> f c3 = a3 \<and> f c4 = a4 \<and> f c5 = a5 \<and> f c6 = a6"
    by blast
next
  assume "\<exists>c1 c2 c3 c4 c5 c6. s = [c1, c2, c3, c4, c5, c6] \<and>
        f c1 = a1 \<and> f c2 = a2 \<and> f c3 = a3 \<and> f c4 = a4 \<and> f c5 = a5 \<and> f c6 = a6"
  then show "map f s = [a1, a2, a3, a4, a5, a6]" by auto
qed

lemma ToLower_bearer_iff:
  "ToLower s = ''bearer'' \<longleftrightarrow>
     (\<exists>c1 c2 c3 c4 c5 c6. s = [c1, c2, c3, c4, c5, c6] \<and>
        (c1 = CHR ''b'' \<or> c1 = CHR ''B'') \<and> (c2 = CHR ''e'' \<or> c2 = CHR ''E'') \<and>
        (c3 = CHR ''a'' \<or> c3 = CHR ''A'') \<and> (c4 = CHR ''r'' \<or> c4 = CHR ''R'') \<and>
        (c5 = CHR ''e'' \<or> c5 = CHR ''E'') \<and> (c6 = CHR ''r'' \<or> c6 = CHR ''R''))"
  unfolding ToLower_def map_eq_six lower_byte_b lower_byte_e lower_byte_a lower_byte_r ..



subsection \<open>Field validation\<close>

lemma validateRequiredFields_first_missing:
  "validateRequiredFields request =
     (case first_missing request of None \<Rightarrow> ([], False) | Some name \<Rightarrow> (name, True))"
  by (simp add: validateRequiredFields_def first_missing_def is_missing_def)

text \<open>
  Claim C5. For every request that was decoded, \<open>validateRequiredFields\<close> reports the
  first missing field in the fixed order model, request_type, request_params, raw_chunks,
  and both variants of the handler then answer 400 with the message
  \<^verbatim>\<open>Missing required field: \<close> followed by that name, before any access to the key store,
  the cache or the backend. A request without model cites \<^verbatim>\<open>model\<close>; one with a model
  and without request type cites \<^verbatim>\<open>request_type\<close>.
\<close>

theorem missing_field_400_in_fixed_order:
  assumes "Bound http = Inr request"
  shows "validateRequiredFields request =
           (case first_missing request of None \<Rightarrow> ([], False) | Some name \<Rightarrow> (name, True)) \<and>
         (\<forall>name. first_missing request = Some name \<longrightarrow>
            Verify_path e t_get t_set c http =
              \<lparr>http_status = 400, http_body = ErrorEnvelope (''Missing required field: '' @ name),
               events = [], cache_after = c\<rparr> \<and>
            Verify_hdr e t_get t_set c http =
              \<lparr>http_status = 400, http_body = ErrorEnvelope (''Missing required field: '' @ name),
               events = [], cache_after = c\<rparr>) \<and>
         (Model request = [] \<longrightarrow> first_missing request = Some ''model'') \<and>
         (Model request \<noteq> [] \<and> RequestType request = [] \<longrightarrow>
            first_missing request = Some ''request_type'')"
  using assms
  by (simp add: validateRequiredFields_first_missing Verify_path_def Verify_hdr_def
        Verify_upto_forward_def)
     (simp add: first_missing_def is_missing_def)

theorem missing_field_400_in_fixed_order_witness:
  "Verify_path (demo_env ''http://haproxy'') 0 0 Map.empty
     \<lparr>Authorization = ''Bearer secret'',
      Bound = Inr ((demo_request ''deepseek-ai/DeepSeek-R1'' [])\<lparr>RequestType := []\<rparr>)\<rparr>
   = \<lparr>http_status = 400, http_body = ErrorEnvelope ''Missing required field: request_type'',
      events = [], cache_after = Map.empty\<rparr>"
  using missing_field_400_in_fixed_order
    [of "\<lparr>Authorization = ''Bearer secret'',
          Bound = Inr ((demo_request ''deepseek-ai/DeepSeek-R1'' [])\<lparr>RequestType := []\<rparr>)\<rparr>"
        "(demo_request ''deepseek-ai/DeepSeek-R1'' [])\<lparr>RequestType := []\<rparr>"
        "demo_env ''http://haproxy''" 0 0 Map.empty]
  by (simp add: demo_request_def)



subsection \<open>Authentication\<close>

lemma validateAPIKey_bearer:
  assumes "Split h CHR '' '' = [scheme, apiKey]" "ToLower scheme = ''bearer''"
  shows "validateAPIKey e h =
           (case QueryRow_hotkey e apiKey of
              Inl err \<Rightarrow> (Some ''invalid API key'', [KeyQuery apiKey])
            | Inr hotkey \<Rightarrow> (None, [KeyQuery apiKey, KeyTouch hotkey]))"
proof -
  from assms(1) have "h \<noteq> []" by auto
  with assms show ?thesis by (simp add: validateAPIKey_def)
qed

text \<open>
  Claim C6, as amended. Field validation runs before authentication. For every request
  that was decoded and has all four required fields, a well-formed bearer header whose
  credential the key store does not know is answered 401 with the message
  \<^verbatim>\<open>invalid API key\<close>, after the one query of the key store and without touching the
  cache or the backend.
\<close>

theorem invalid_credential_401_once_validated:
  assumes "Bound http = Inr request"
    and "validateRequiredFields request = ([], False)"
    and "Split (Authorization http) CHR '' '' = [scheme, apiKey]"
    and "ToLower scheme = ''bearer''"
    and "QueryRow_hotkey e apiKey = Inl err"
  shows "Verify_path e t_get t_set c http =
           \<lparr>http_status = 401, http_body = ErrorEnvelope ''invalid API key'',
            events = [KeyQuery apiKey], cache_after = c\<rparr> \<and>
         Verify_hdr e t_get t_set c http =
           \<lparr>http_status = 401, http_body = ErrorEnvelope ''invalid API key'',
            events = [KeyQuery apiKey], cache_after = c\<rparr>"
  using assms(1,2,5) validateAPIKey_bearer [OF assms(3,4), of e]
  by (simp add: Verify_path_def Verify_hdr_def Verify_upto_forward_def)

theorem invalid_credential_401_once_validated_witness:
  "Bound \<lparr>Authorization = ''Bearer wrong'', Bound = Inr (demo_request ''deepseek-ai/DeepSeek-R1'' [])\<rparr>
     = Inr (demo_request ''deepseek-ai/DeepSeek-R1'' []) \<and>
   validateRequiredFields (demo_request ''deepseek-ai/DeepSeek-R1'' []) = ([], False) \<and>
   Split ''Bearer wrong'' CHR '' '' = [''Bearer'', ''wrong''] \<and>
   ToLower ''Bearer'' = ''bearer'' \<and>
   QueryRow_hotkey (demo_env ''http://haproxy'') ''wrong'' = Inl ''sql: no rows in result set'' \<and>
   Verify_hdr (demo_env ''http://haproxy'') 0 0 Map.empty
     \<lparr>Authorization = ''Bearer wrong'', Bound = Inr (demo_request ''deepseek-ai/DeepSeek-R1'' [])\<rparr>
   = \<lparr>http_status = 401, http_body = ErrorEnvelope ''invalid API key'',
      events = [KeyQuery ''wrong''], cache_after = Map.empty\<rparr>"
proof -
  have h1: "Bound \<lparr>Authorization = ''Bearer wrong'', Bound = Inr (demo_request ''deepseek-ai/DeepSeek-R1'' [])\<rparr>
     = Inr (demo_request ''deepseek-ai/DeepSeek-R1'' [])" by simp
  have h2: "validateRequiredFields (demo_request ''deepseek-ai/DeepSeek-R1'' []) = ([], False)"
    by (simp add: validateRequiredFields_def demo_request_def)
  have h3: "Split (Authorization \<lparr>Authorization = ''Bearer wrong'', Bound = Inr (demo_request ''deepseek-ai/DeepSeek-R1'' [])\<rparr>) CHR '' ''
              = [''Bearer'', ''wrong'']" by simp
  have h4: "ToLower ''Bearer'' = ''bearer''" by (simp add: ToLower_def lower_byte_def)
  have h5: "QueryRow_hotkey (demo_env ''http://haproxy'') ''wrong'' = Inl ''sql: no rows in result set''"
    by (simp add: demo_env_def demo_QueryRow_def)
  from invalid_credential_401_once_validated [OF h1 h2 h3 h4 h5, of 0 0 Map.empty] h1 h2 h3 h4 h5
  show ?thesis by simp
qed

text \<open>
  Claim C6 as stated fails when the payload is not valid: a request without model that
  presents the unknown credential \<^verbatim>\<open>wrong\<close> is answered 400 by both variants, and the
  credential is never looked at.
\<close>

theorem missing_model_bad_credential_counterexample:
  "QueryRow_hotkey (demo_env ''http://haproxy'') ''wrong'' = Inl ''sql: no rows in result set'' \<and>
   http_status (Verify_path (demo_env ''http://haproxy'') 0 0 Map.empty
     \<lparr>Authorization = ''Bearer wrong'', Bound = Inr (demo_request [] [])\<rparr>) = 400 \<and>
   http_status (Verify_hdr (demo_env ''http://haproxy'') 0 0 Map.empty
     \<lparr>Authorization = ''Bearer wrong'', Bound = Inr (demo_request [] [])\<rparr>) = 400 \<and>
   http_body (Verify_hdr (demo_env ''http://haproxy'') 0 0 Map.empty
     \<lparr>Authorization = ''Bearer wrong'', Bound = Inr (demo_request [] [])\<rparr>)
     = ErrorEnvelope ''Missing required field: model''"
  by (simp add: Verify_path_def Verify_hdr_def Verify_upto_forward_def validateRequiredFields_def
        demo_request_def demo_env_def demo_QueryRow_def)



lemma validateAPIKey_rejects:
  assumes "\<not> (length (Split h CHR '' '') = 2 \<and> ToLower (Split h CHR '' '' ! 0) = ''bearer'')"
  shows "validateAPIKey e h =
           (Some (if h = [] then ''authorization required'' else ''invalid authorization format''), [])"
  using assms by (auto simp: validateAPIKey_def Let_def)

lemma two_parts_iff:
  "length (Split h sep) = 2 \<and> P (Split h sep ! 0) \<longleftrightarrow>
     (\<exists>a b. Split h sep = [a, b] \<and> P a)"
proof
  assume l: "length (Split h sep) = 2 \<and> P (Split h sep ! 0)"
  then obtain a b where "Split h sep = [a, b]"
    by (cases "Split h sep"; cases "tl (Split h sep)") auto
  with l show "\<exists>a b. Split h sep = [a, b] \<and> P a" by auto
next
  assume "\<exists>a b. Split h sep = [a, b] \<and> P a"
  then show "length (Split h sep) = 2 \<and> P (Split h sep ! 0)" by auto
qed

text \<open>
  Claim C10. \<open>validateAPIKey\<close> queries the key store exactly when splitting the header
  at single spaces gives two parts and the first is \<^verbatim>\<open>bearer\<close> after lower-casing; that
  is, exactly when the header is a scheme, one space and a credential, neither containing
  a space, with the scheme \<^verbatim>\<open>bearer\<close> in any mix of cases, and then the key queried is that
  credential; a scheme is accepted exactly when it is the six letters of \<^verbatim>\<open>bearer\<close>, each
  in either case. Every other header (empty, without a space and so without a credential, or
  with two or more spaces, as with extra tokens or a doubled space) is refused without any
  access to the key store, and a decoded request with all required fields is then answered
  401 by both variants.
\<close>

theorem bearer_header_gate:
  "(proceeds_to_lookup e h \<longleftrightarrow>
      length (Split h CHR '' '') = 2 \<and> ToLower (Split h CHR '' '' ! 0) = ''bearer'') \<and>
   (length (Split h CHR '' '') = 2 \<and> ToLower (Split h CHR '' '' ! 0) = ''bearer'' \<longleftrightarrow>
      (\<exists>scheme apiKey. h = scheme @ '' '' @ apiKey \<and> CHR '' '' \<notin> set scheme \<and>
          CHR '' '' \<notin> set apiKey \<and> ToLower scheme = ''bearer'')) \<and>
   (\<forall>scheme apiKey. h = scheme @ '' '' @ apiKey \<and> CHR '' '' \<notin> set scheme \<and>
          CHR '' '' \<notin> set apiKey \<and> ToLower scheme = ''bearer'' \<longrightarrow>
      hd (snd (validateAPIKey e h)) = KeyQuery apiKey) \<and>
   (\<not> (length (Split h CHR '' '') = 2 \<and> ToLower (Split h CHR '' '' ! 0) = ''bearer'') \<longrightarrow>
      validateAPIKey e h =
        (Some (if h = [] then ''authorization required'' else ''invalid authorization format''), []) \<and>
      (\<forall>request c t_get t_set http.
         Bound http = Inr request \<and> validateRequiredFields request = ([], False) \<and>
         Authorization http = h \<longrightarrow>
           http_status (Verify_path e t_get t_set c http) = 401 \<and>
           events (Verify_path e t_get t_set c http) = [] \<and>
           http_status (Verify_hdr e t_get t_set c http) = 401 \<and>
           events (Verify_hdr e t_get t_set c http) = [])) \<and>
   (CHR '' '' \<notin> set h \<or> 2 \<le> count_list h CHR '' '' \<longrightarrow>
      length (Split h CHR '' '') \<noteq> 2) \<and>
   ToLower ''Bearer'' = ''bearer'' \<and> ToLower ''bearer'' = ''bearer'' \<and> ToLower ''BEARER'' = ''bearer'' \<and>
   (\<forall>scheme. ToLower scheme = ''bearer'' \<longleftrightarrow>
      (\<exists>c1 c2 c3 c4 c5 c6. scheme = [c1, c2, c3, c4, c5, c6] \<and>
        (c1 = CHR ''b'' \<or> c1 = CHR ''B'') \<and> (c2 = CHR ''e'' \<or> c2 = CHR ''E'') \<and>
        (c3 = CHR ''a'' \<or> c3 = CHR ''A'') \<and> (c4 = CHR ''r'' \<or> c4 = CHR ''R'') \<and>
        (c5 = CHR ''e'' \<or> c5 = CHR ''E'') \<and> (c6 = CHR ''r'' \<or> c6 = CHR ''R'')))"
proof -
  let ?ok = "length (Split h CHR '' '') = 2 \<and> ToLower (Split h CHR '' '' ! 0) = ''bearer''"
  have pair: "?ok \<longleftrightarrow> (\<exists>a b. Split h CHR '' '' = [a, b] \<and> ToLower a = ''bearer'')"
    by (rule two_parts_iff)
  have A: "proceeds_to_lookup e h \<longleftrightarrow> ?ok"
  proof (cases ?ok)
    case True
    then obtain a b where ab: "Split h CHR '' '' = [a, b]" "ToLower a = ''bearer''"
      using pair by blast
    have "proceeds_to_lookup e h"
      unfolding proceeds_to_lookup_def validateAPIKey_bearer [OF ab]
      by (auto simp: is_KeyQuery_def split: sum.splits)
    with True show ?thesis by simp
  next
    case False
    then show ?thesis
      by (simp add: proceeds_to_lookup_def validateAPIKey_rejects [OF False])
  qed
  have B: "?ok \<longleftrightarrow> (\<exists>scheme apiKey. h = scheme @ '' '' @ apiKey \<and> CHR '' '' \<notin> set scheme \<and>
          CHR '' '' \<notin> set apiKey \<and> ToLower scheme = ''bearer'')"
    unfolding pair Split_pair_iff by auto
  have C: "hd (snd (validateAPIKey e h)) = KeyQuery apiKey"
    if "h = scheme @ '' '' @ apiKey \<and> CHR '' '' \<notin> set scheme \<and>
          CHR '' '' \<notin> set apiKey \<and> ToLower scheme = ''bearer''" for scheme apiKey
  proof -
    from that have ab: "Split h CHR '' '' = [scheme, apiKey]" "ToLower scheme = ''bearer''"
      by (auto simp: Split_pair_iff)
    show ?thesis
      unfolding validateAPIKey_bearer [OF ab] by (auto split: sum.splits)
  qed
  have D: "validateAPIKey e h =
        (Some (if h = [] then ''authorization required'' else ''invalid authorization format''), []) \<and>
      (\<forall>request c t_get t_set http.
         Bound http = Inr request \<and> validateRequiredFields request = ([], False) \<and>
         Authorization http = h \<longrightarrow>
           http_status (Verify_path e t_get t_set c http) = 401 \<and>
           events (Verify_path e t_get t_set c http) = [] \<and>
           http_status (Verify_hdr e t_get t_set c http) = 401 \<and>
           events (Verify_hdr e t_get t_set c http) = [])" if "\<not> ?ok"
    using validateAPIKey_rejects [OF that, of e]
    by (simp add: Verify_path_def Verify_hdr_def Verify_upto_forward_def)
  have E: "length (Split h CHR '' '') \<noteq> 2" if "CHR '' '' \<notin> set h \<or> 2 \<le> count_list h CHR '' ''"
    using that by (auto simp: length_Split count_list_0_iff)
  have F: "ToLower ''Bearer'' = ''bearer''" "ToLower ''bearer'' = ''bearer''" "ToLower ''BEARER'' = ''bearer''"
    by (simp_all add: ToLower_def lower_byte_def)
  have G: "\<forall>scheme. ToLower scheme = ''bearer'' \<longleftrightarrow>
      (\<exists>c1 c2 c3 c4 c5 c6. scheme = [c1, c2, c3, c4, c5, c6] \<and>
        (c1 = CHR ''b'' \<or> c1 = CHR ''B'') \<and> (c2 = CHR ''e'' \<or> c2 = CHR ''E'') \<and>
        (c3 = CHR ''a'' \<or> c3 = CHR ''A'') \<and> (c4 = CHR ''r'' \<or> c4 = CHR ''R'') \<and>
        (c5 = CHR ''e'' \<or> c5 = CHR ''E'') \<and> (c6 = CHR ''r'' \<or> c6 = CHR ''R''))"
    by (rule allI) (rule ToLower_bearer_iff)
  have C': "\<forall>scheme apiKey. h = scheme @ '' '' @ apiKey \<and> CHR '' '' \<notin> set scheme \<and>
          CHR '' '' \<notin> set apiKey \<and> ToLower scheme = ''bearer'' \<longrightarrow>
      hd (snd (validateAPIKey e h)) = KeyQuery apiKey"
    using C by blast
  have D': "\<not> ?ok \<longrightarrow>
      validateAPIKey e h =
        (Some (if h = [] then ''authorization required'' else ''invalid authorization format''), []) \<and>
      (\<forall>request c t_get t_set http.
         Bound http = Inr request \<and> validateRequiredFields request = ([], False) \<and>
         Authorization http = h \<longrightarrow>
           http_status (Verify_path e t_get t_set c http) = 401 \<and>
           events (Verify_path e t_get t_set c http) = [] \<and>
           http_status (Verify_hdr e t_get t_set c http) = 401 \<and>
           events (Verify_hdr e t_get t_set c http) = [])"
    using D by blast
  have E': "CHR '' '' \<notin> set h \<or> 2 \<le> count_list h CHR '' '' \<longrightarrow> length (Split h CHR '' '') \<noteq> 2"
    using E by blast
  show ?thesis
    using A B C' D' E' F G by (intro conjI)
qed

theorem bearer_header_gate_witness:
  "proceeds_to_lookup (demo_env ''http://haproxy'') ''BEARER secret'' \<and>
   \<not> proceeds_to_lookup (demo_env ''http://haproxy'') [] \<and>
   \<not> proceeds_to_lookup (demo_env ''http://haproxy'') ''Bearer'' \<and>
   \<not> proceeds_to_lookup (demo_env ''http://haproxy'') ''Bearer secret extra'' \<and>
   \<not> proceeds_to_lookup (demo_env ''http://haproxy'') ''Bearer  secret'' \<and>
   validateAPIKey (demo_env ''http://haproxy'') ''Bearer  secret''
     = (Some ''invalid authorization format'', []) \<and>
   http_status (Verify_hdr (demo_env ''http://haproxy'') 0 0 Map.empty
     \<lparr>Authorization = ''Bearer  secret'', Bound = Inr (demo_request ''deepseek-ai/DeepSeek-R1'' [])\<rparr>) = 401"
proof -
  let ?e = "demo_env ''http://haproxy''"
  have a: "proceeds_to_lookup ?e ''BEARER secret''"
    using bearer_header_gate [of ?e "''BEARER secret''", THEN conjunct1]
    by (simp add: ToLower_def lower_byte_def)
  have b: "\<not> proceeds_to_lookup ?e []"
    using bearer_header_gate [of ?e "[]", THEN conjunct1] by simp
  have c: "\<not> proceeds_to_lookup ?e ''Bearer''"
    using bearer_header_gate [of ?e "''Bearer''", THEN conjunct1] by simp
  have d: "\<not> proceeds_to_lookup ?e ''Bearer secret extra''"
    using bearer_header_gate [of ?e "''Bearer secret extra''", THEN conjunct1] by simp
  have f: "\<not> proceeds_to_lookup ?e ''Bearer  secret''"
    using bearer_header_gate [of ?e "''Bearer  secret''", THEN conjunct1] by simp
  have n: "\<not> (length (Split ''Bearer  secret'' CHR '' '') = 2 \<and>
               ToLower (Split ''Bearer  secret'' CHR '' '' ! 0) = ''bearer'')"
    by simp
  note g = bearer_header_gate [of ?e "''Bearer  secret''",
             THEN conjunct2, THEN conjunct2, THEN conjunct2, THEN conjunct1, rule_format, OF n]
  have v: "validateRequiredFields (demo_request ''deepseek-ai/DeepSeek-R1'' []) = ([], False)"
    by (simp add: validateRequiredFields_def demo_request_def)
  have h: "http_status (Verify_hdr ?e 0 0 Map.empty
     \<lparr>Authorization = ''Bearer  secret'', Bound = Inr (demo_request ''deepseek-ai/DeepSeek-R1'' [])\<rparr>) = 401"
    using g [THEN conjunct2, rule_format,
             of "\<lparr>Authorization = ''Bearer  secret'', Bound = Inr (demo_request ''deepseek-ai/DeepSeek-R1'' [])\<rparr>"
                "demo_request ''deepseek-ai/DeepSeek-R1'' []" 0 0 Map.empty] v
    by simp
  from a b c d f g [THEN conjunct1] h show ?thesis by simp
qed



subsection \<open>The cache check\<close>

lemma validateAPIKey_events:
  "list_all (\<lambda>ev. \<not> is_BackendCall ev \<and> \<not> is_CacheSet ev) (snd (validateAPIKey e h))"
  by (simp add: validateAPIKey_def Let_def is_BackendCall_def is_CacheSet_def split: sum.splits)

lemma forward_and_respond_path_any_cache:
  "answer_and_effects (forward_and_respond_path e t_set c request evs) =
   answer_and_effects (forward_and_respond_path e t_set c' request evs)"
  by (simp add: forward_and_respond_path_def answer_and_effects_def
           split: prod.splits forwarded.splits sum.splits)

lemma forward_and_respond_hdr_any_cache:
  "answer_and_effects (forward_and_respond_hdr e t_set c request evs) =
   answer_and_effects (forward_and_respond_hdr e t_set c' request evs)"
  by (simp add: forward_and_respond_hdr_def answer_and_effects_def
           split: prod.splits forwarded.splits sum.splits)

lemma Verify_upto_forward_hit:
  assumes "Bound http = Inr request"
    and "validateRequiredFields request = ([], False)"
    and "validateAPIKey e (Authorization http) = (None, kevs)"
    and "RequestID request \<noteq> []"
    and "c (RequestID request) = Some entry"
    and "t_get \<le> ExpiresAt entry"
  shows "Verify_upto_forward continue e t_get t_set c http =
           (case json_Unmarshal_response e (Response entry) of
              Inl err \<Rightarrow> continue e t_set c request (kevs @ [CacheGet (RequestID request)])
            | Inr response \<Rightarrow>
                \<lparr>http_status = 200, http_body = ResponseJSON response,
                 events = kevs @ [CacheGet (RequestID request)], cache_after = c\<rparr>)"
  using assms by (simp add: Verify_upto_forward_def Get_def After_def Let_def split: sum.splits)

lemma Verify_upto_forward_absent:
  assumes "Bound http = Inr request"
    and "validateRequiredFields request = ([], False)"
    and "validateAPIKey e (Authorization http) = (None, kevs)"
    and "RequestID request \<noteq> []"
    and "c (RequestID request) = None"
  shows "Verify_upto_forward continue e t_get t_set c http =
           continue e t_set c request (kevs @ [CacheGet (RequestID request)])"
  using assms by (simp add: Verify_upto_forward_def Get_def Let_def)

text \<open>
  Claim C3. Take a decoded request with all required fields, an accepted credential and
  a non-empty request id whose cache entry has not expired. If the cached bytes decode,
  both variants answer 200 with the decoded response, the events are the accesses to the
  key store and the one cache read (no call of the backend, no cache write), and the cache
  is unchanged. If they do not decode, the handler continues with the forwarding step from
  the same point, and its answer and events are those of the same run on a cache that has
  no entry for the id.
\<close>

theorem cache_hit_short_circuits:
  assumes "Bound http = Inr request"
    and "validateRequiredFields request = ([], False)"
    and "validateAPIKey e (Authorization http) = (None, kevs)"
    and "RequestID request \<noteq> []"
    and "c (RequestID request) = Some entry"
    and "t_get \<le> ExpiresAt entry"
  shows "(\<forall>response. json_Unmarshal_response e (Response entry) = Inr response \<longrightarrow>
            Verify_path e t_get t_set c http =
              \<lparr>http_status = 200, http_body = ResponseJSON response,
               events = kevs @ [CacheGet (RequestID request)], cache_after = c\<rparr> \<and>
            Verify_hdr e t_get t_set c http =
              \<lparr>http_status = 200, http_body = ResponseJSON response,
               events = kevs @ [CacheGet (RequestID request)], cache_after = c\<rparr> \<and>
            list_all (\<lambda>ev. \<not> is_BackendCall ev \<and> \<not> is_CacheSet ev)
              (kevs @ [CacheGet (RequestID request)])) \<and>
         (\<forall>err. json_Unmarshal_response e (Response entry) = Inl err \<longrightarrow>
            answer_and_effects (Verify_path e t_get t_set c http) =
              answer_and_effects (Verify_path e t_get t_set (c(RequestID request := None)) http) \<and>
            answer_and_effects (Verify_hdr e t_get t_set c http) =
              answer_and_effects (Verify_hdr e t_get t_set (c(RequestID request := None)) http) \<and>
            Verify_path e t_get t_set c http =
              forward_and_respond_path e t_set c request (kevs @ [CacheGet (RequestID request)]) \<and>
            Verify_hdr e t_get t_set c http =
              forward_and_respond_hdr e t_set c request (kevs @ [CacheGet (RequestID request)]))"
proof -
  have absent: "(c(RequestID request := None)) (RequestID request) = None" by simp
  have hit: "Verify_upto_forward continue e t_get t_set c http =
           (case json_Unmarshal_response e (Response entry) of
              Inl err \<Rightarrow> continue e t_set c request (kevs @ [CacheGet (RequestID request)])
            | Inr response \<Rightarrow>
                \<lparr>http_status = 200, http_body = ResponseJSON response,
                 events = kevs @ [CacheGet (RequestID request)], cache_after = c\<rparr>)" for continue
    using assms by (rule Verify_upto_forward_hit)
  have miss: "Verify_upto_forward continue e t_get t_set (c(RequestID request := None)) http =
           continue e t_set (c(RequestID request := None)) request (kevs @ [CacheGet (RequestID request)])"
    for continue
    using assms(1-4) absent by (rule Verify_upto_forward_absent)
  have quiet: "list_all (\<lambda>ev. \<not> is_BackendCall ev \<and> \<not> is_CacheSet ev)
                 (kevs @ [CacheGet (RequestID request)])"
    using validateAPIKey_events [of e "Authorization http"] assms(3)
    by (simp add: is_BackendCall_def is_CacheSet_def)
  show ?thesis
    using quiet
    by (simp add: Verify_path_def Verify_hdr_def hit miss
          forward_and_respond_path_any_cache [of e t_set c request _ "c(RequestID request := None)"]
          forward_and_respond_hdr_any_cache [of e t_set c request _ "c(RequestID request := None)"])
qed


theorem cache_hit_short_circuits_witness:
  "Verify_hdr (demo_env ''http://haproxy'') 10 11
     [''req-1'' \<mapsto> \<lparr>Response = ''{\"verified\":true}'', ExpiresAt = 100\<rparr>]
     \<lparr>Authorization = ''Bearer secret'', Bound = Inr (demo_request ''deepseek-ai/DeepSeek-R1'' ''req-1'')\<rparr>
   = \<lparr>http_status = 200, http_body = ResponseJSON (zero_response\<lparr>Verified := True\<rparr>),
      events = [KeyQuery ''secret'', KeyTouch ''alice'', CacheGet ''req-1''],
      cache_after = [''req-1'' \<mapsto> \<lparr>Response = ''{\"verified\":true}'', ExpiresAt = 100\<rparr>]\<rparr> \<and>
   answer_and_effects (Verify_path (demo_env ''http://haproxy'') 10 11
     [''req-1'' \<mapsto> \<lparr>Response = ''not json'', ExpiresAt = 100\<rparr>]
     \<lparr>Authorization = ''Bearer secret'', Bound = Inr (demo_request ''deepseek-ai/DeepSeek-R1'' ''req-1'')\<rparr>)
   = answer_and_effects (Verify_path (demo_env ''http://haproxy'') 10 11
     ([''req-1'' \<mapsto> \<lparr>Response = ''not json'', ExpiresAt = 100\<rparr>](''req-1'' := None))
     \<lparr>Authorization = ''Bearer secret'', Bound = Inr (demo_request ''deepseek-ai/DeepSeek-R1'' ''req-1'')\<rparr>)"
proof -
  let ?e = "demo_env ''http://haproxy''"
  let ?r = "demo_request ''deepseek-ai/DeepSeek-R1'' ''req-1''"
  let ?http = "\<lparr>Authorization = ''Bearer secret'', Bound = Inr ?r\<rparr>"
  let ?good = "\<lparr>Response = ''{\"verified\":true}'', ExpiresAt = 100\<rparr>"
  let ?bad = "\<lparr>Response = ''not json'', ExpiresAt = 100\<rparr>"
  have b: "Bound ?http = Inr ?r" by simp
  have v: "validateRequiredFields ?r = ([], False)"
    by (simp add: validateRequiredFields_def demo_request_def)
  have k: "validateAPIKey ?e (Authorization ?http) = (None, [KeyQuery ''secret'', KeyTouch ''alice''])"
    by (simp add: validateAPIKey_def ToLower_def lower_byte_def demo_env_def demo_QueryRow_def)
  have i: "RequestID ?r \<noteq> []" by (simp add: demo_request_def)
  have g: "[''req-1'' \<mapsto> ?good] (RequestID ?r) = Some ?good" by (simp add: demo_request_def)
  have g': "[''req-1'' \<mapsto> ?bad] (RequestID ?r) = Some ?bad" by (simp add: demo_request_def)
  have t: "(10::int) \<le> ExpiresAt ?good" by simp
  have t': "(10::int) \<le> ExpiresAt ?bad" by simp
  have d: "json_Unmarshal_response ?e (Response ?good) = Inr (zero_response\<lparr>Verified := True\<rparr>)"
    by (simp add: demo_env_def demo_Unmarshal_response_def)
  have d': "json_Unmarshal_response ?e (Response ?bad) = Inl ''invalid character''"
    by (simp add: demo_env_def demo_Unmarshal_response_def)
  have one: "Verify_hdr ?e 10 11 [''req-1'' \<mapsto> ?good] ?http =
    \<lparr>http_status = 200, http_body = ResponseJSON (zero_response\<lparr>Verified := True\<rparr>),
      events = [KeyQuery ''secret'', KeyTouch ''alice'', CacheGet ''req-1''],
      cache_after = [''req-1'' \<mapsto> ?good]\<rparr>"
    using cache_hit_short_circuits [of ?http ?r ?e "[KeyQuery ''secret'', KeyTouch ''alice'']"
            "[''req-1'' \<mapsto> ?good]" ?good 10 11, OF b v k i g t] d
    by (simp add: demo_request_def)
  have rid: "RequestID ?r = ''req-1''" by (simp add: demo_request_def)
  have two: "answer_and_effects (Verify_path ?e 10 11 [''req-1'' \<mapsto> ?bad] ?http) =
             answer_and_effects (Verify_path ?e 10 11 ([''req-1'' \<mapsto> ?bad](''req-1'' := None)) ?http)"
    using cache_hit_short_circuits [of ?http ?r ?e "[KeyQuery ''secret'', KeyTouch ''alice'']"
            "[''req-1'' \<mapsto> ?bad]" ?bad 10 11, OF b v k i g' t',
            THEN conjunct2, rule_format, OF d', THEN conjunct1]
    unfolding rid .
  from one two show ?thesis by (rule conjI)
qed


subsection \<open>The reply of the backend\<close>

lemma Verify_upto_forward_continues:
  assumes "Bound http = Inr request"
    and "validateRequiredFields request = ([], False)"
    and "validateAPIKey e (Authorization http) = (None, kevs)"
    and "reaches_forwarding e t_get c request"
  shows "Verify_upto_forward continue e t_get t_set c http =
           continue e t_set c request (events_before_forwarding kevs t_get c request)"
  using assms
  by (auto simp: Verify_upto_forward_def reaches_forwarding_def events_before_forwarding_def
           Let_def isl_def split: sum.splits)

lemma response_of_map_synthesized:
  "Verified (response_of_map req
      (AList.update ''error'' (JStr msg) (AList.update ''verified'' (JBool False) m))) = False \<and>
   Error (response_of_map req
      (AList.update ''error'' (JStr msg) (AList.update ''verified'' (JBool False) m))) = msg"
  by (simp add: response_of_map_def index_map_def update_conv')

text \<open>
  Claim C4, as amended. A request reaches the forwarding step and is serialised; the
  backend is reached and its reply decodes to a JSON object without the key
  \<^verbatim>\<open>verified\<close>. The path-suffix variant then answers 200 with a response whose
  \<open>Verified\<close> is false and whose \<open>Error\<close> is the synthesized message; the header variant
  answers 200 with the bytes of the reply as they are.
\<close>

theorem missing_verified_field:
  assumes "Bound http = Inr request"
    and "validateRequiredFields request = ([], False)"
    and "validateAPIKey e (Authorization http) = (None, kevs)"
    and "reaches_forwarding e t_get c request"
    and "json_Marshal_request e request = Inr requestBody"
    and "json_Unmarshal_map e reply = Inr (Some responseMap)"
    and "map_of responseMap ''verified'' = None"
  shows "(\<forall>backendPath.
            backendPath_of (Model request) = Some backendPath \<and>
            http_NewRequest e (HaproxyURL e @ backendPath) = None \<and>
            client_Do e \<lparr>url = HaproxyURL e @ backendPath,
                         headers = [(''Content-Type'', ''application/json'')],
                         payload = requestBody\<rparr> = ReplyBody reply \<longrightarrow>
            http_status (Verify_path e t_get t_set c http) = 200 \<and>
            http_body (Verify_path e t_get t_set c http) =
              ResponseJSON (response_of_map request
                (AList.update ''error'' (JStr ''Verification service response missing 'verified' field'')
                   (AList.update ''verified'' (JBool False) responseMap))) \<and>
            (\<exists>r. http_body (Verify_path e t_get t_set c http) = ResponseJSON r \<and>
                 Verified r = False \<and>
                 Error r = ''Verification service response missing 'verified' field'')) \<and>
         (\<forall>server.
            backendServer_of (Model request) = Some server \<and>
            http_NewRequest e (HaproxyURL e @ ''/verify'') = None \<and>
            client_Do e \<lparr>url = HaproxyURL e @ ''/verify'',
                         headers = [(''x-backend-server'', server),
                                    (''Content-Type'', ''application/json'')],
                         payload = requestBody\<rparr> = ReplyBody reply \<longrightarrow>
            http_status (Verify_hdr e t_get t_set c http) = 200 \<and>
            http_body (Verify_hdr e t_get t_set c http) = RawJSON reply)"
proof -
  have cont: "Verify_upto_forward continue e t_get t_set c http =
           continue e t_set c request (events_before_forwarding kevs t_get c request)" for continue
    using assms(1-4) by (rule Verify_upto_forward_continues)
  have path: "http_status (Verify_path e t_get t_set c http) = 200 \<and>
            http_body (Verify_path e t_get t_set c http) =
              ResponseJSON (response_of_map request
                (AList.update ''error'' (JStr ''Verification service response missing 'verified' field'')
                   (AList.update ''verified'' (JBool False) responseMap)))"
    if "backendPath_of (Model request) = Some backendPath \<and>
        http_NewRequest e (HaproxyURL e @ backendPath) = None \<and>
        client_Do e \<lparr>url = HaproxyURL e @ backendPath,
                     headers = [(''Content-Type'', ''application/json'')],
                     payload = requestBody\<rparr> = ReplyBody reply" for backendPath
    using that assms(5-7)
    by (simp add: Verify_path_def cont forward_and_respond_path_def forwardToValis_path_def
          parse_backend_body_def split: sum.splits)
  have hdr: "http_status (Verify_hdr e t_get t_set c http) = 200 \<and>
            http_body (Verify_hdr e t_get t_set c http) = RawJSON reply"
    if "backendServer_of (Model request) = Some server \<and>
        http_NewRequest e (HaproxyURL e @ ''/verify'') = None \<and>
        client_Do e \<lparr>url = HaproxyURL e @ ''/verify'',
                     headers = [(''x-backend-server'', server),
                                (''Content-Type'', ''application/json'')],
                     payload = requestBody\<rparr> = ReplyBody reply" for server
    using that assms(5)
    by (simp add: Verify_hdr_def cont forward_and_respond_hdr_def forwardToValis_hdr_def)
  have path': "http_status (Verify_path e t_get t_set c http) = 200 \<and>
            http_body (Verify_path e t_get t_set c http) =
              ResponseJSON (response_of_map request
                (AList.update ''error'' (JStr ''Verification service response missing 'verified' field'')
                   (AList.update ''verified'' (JBool False) responseMap))) \<and>
            (\<exists>r. http_body (Verify_path e t_get t_set c http) = ResponseJSON r \<and>
                 Verified r = False \<and>
                 Error r = ''Verification service response missing 'verified' field'')"
    if "backendPath_of (Model request) = Some backendPath \<and>
        http_NewRequest e (HaproxyURL e @ backendPath) = None \<and>
        client_Do e \<lparr>url = HaproxyURL e @ backendPath,
                     headers = [(''Content-Type'', ''application/json'')],
                     payload = requestBody\<rparr> = ReplyBody reply" for backendPath
    using path [OF that] response_of_map_synthesized by simp
  show ?thesis
  proof (rule conjI; intro allI impI)
    fix backendPath
    assume "backendPath_of (Model request) = Some backendPath \<and>
        http_NewRequest e (HaproxyURL e @ backendPath) = None \<and>
        client_Do e \<lparr>url = HaproxyURL e @ backendPath,
                     headers = [(''Content-Type'', ''application/json'')],
                     payload = requestBody\<rparr> = ReplyBody reply"
    then show "http_status (Verify_path e t_get t_set c http) = 200 \<and>
            http_body (Verify_path e t_get t_set c http) =
              ResponseJSON (response_of_map request
                (AList.update ''error'' (JStr ''Verification service response missing 'verified' field'')
                   (AList.update ''verified'' (JBool False) responseMap))) \<and>
            (\<exists>r. http_body (Verify_path e t_get t_set c http) = ResponseJSON r \<and>
                 Verified r = False \<and>
                 Error r = ''Verification service response missing 'verified' field'')"
      by (rule path')
  next
    fix server
    assume "backendServer_of (Model request) = Some server \<and>
        http_NewRequest e (HaproxyURL e @ ''/verify'') = None \<and>
        client_Do e \<lparr>url = HaproxyURL e @ ''/verify'',
                     headers = [(''x-backend-server'', server),
                                (''Content-Type'', ''application/json'')],
                     payload = requestBody\<rparr> = ReplyBody reply"
    then show "http_status (Verify_hdr e t_get t_set c http) = 200 \<and>
            http_body (Verify_hdr e t_get t_set c http) = RawJSON reply"
      by (rule hdr)
  qed
qed


theorem missing_verified_field_witness:
  "http_status (Verify_path (demo_env ''http://haproxy'') 0 0 Map.empty
     \<lparr>Authorization = ''Bearer secret'', Bound = Inr (demo_request ''deepseek-ai/DeepSeek-R1'' [])\<rparr>) = 200 \<and>
   http_body (Verify_path (demo_env ''http://haproxy'') 0 0 Map.empty
     \<lparr>Authorization = ''Bearer secret'', Bound = Inr (demo_request ''deepseek-ai/DeepSeek-R1'' [])\<rparr>)
     = ResponseJSON (zero_response\<lparr>Error := ''Verification service response missing 'verified' field''\<rparr>) \<and>
   http_body (Verify_hdr (demo_env ''http://haproxy'') 0 0 Map.empty
     \<lparr>Authorization = ''Bearer secret'', Bound = Inr (demo_request ''deepseek-ai/DeepSeek-R1'' [])\<rparr>)
     = RawJSON ''{}''"
proof -
  let ?e = "demo_env ''http://haproxy''"
  let ?r = "demo_request ''deepseek-ai/DeepSeek-R1'' []"
  let ?http = "\<lparr>Authorization = ''Bearer secret'', Bound = Inr ?r\<rparr>"
  let ?body = "''{\"model\":\"deepseek-ai/DeepSeek-R1\",\"request_type\":\"completion\",\"request_params\":{},\"raw_chunks\":[]}''"
  have b: "Bound ?http = Inr ?r" by simp
  have v: "validateRequiredFields ?r = ([], False)"
    by (simp add: validateRequiredFields_def demo_request_def)
  have k: "validateAPIKey ?e (Authorization ?http) = (None, [KeyQuery ''secret'', KeyTouch ''alice''])"
    by (simp add: validateAPIKey_def ToLower_def lower_byte_def demo_env_def demo_QueryRow_def)
  have f: "reaches_forwarding ?e 0 Map.empty ?r"
    by (simp add: reaches_forwarding_def demo_request_def)
  have m: "json_Marshal_request ?e ?r = Inr ?body"
    by (simp add: demo_env_def demo_Marshal_request_def demo_request_def)
  have u: "json_Unmarshal_map ?e ''{}'' = Inr (Some [])"
    by (simp add: demo_env_def demo_Unmarshal_map_def)
  have n: "map_of ([] :: json_map) ''verified'' = None" by simp
  note th = missing_verified_field [OF b v k f m u n, of 0]
  have p: "backendPath_of (Model ?r) = Some ''/r1/verify'' \<and>
           http_NewRequest ?e (HaproxyURL ?e @ ''/r1/verify'') = None \<and>
           client_Do ?e \<lparr>url = HaproxyURL ?e @ ''/r1/verify'',
                          headers = [(''Content-Type'', ''application/json'')],
                          payload = ?body\<rparr> = ReplyBody ''{}''"
    by (simp add: backendPath_of_def demo_request_def demo_env_def demo_NewRequest_def)
  have h: "backendServer_of (Model ?r) = Some ''r1'' \<and>
           http_NewRequest ?e (HaproxyURL ?e @ ''/verify'') = None \<and>
           client_Do ?e \<lparr>url = HaproxyURL ?e @ ''/verify'',
                          headers = [(''x-backend-server'', ''r1''),
                                     (''Content-Type'', ''application/json'')],
                          payload = ?body\<rparr> = ReplyBody ''{}''"
    by (simp add: backendServer_of_def demo_request_def demo_env_def demo_NewRequest_def)
  have z: "response_of_map ?r
             (AList.update ''error'' (JStr ''Verification service response missing 'verified' field'')
                (AList.update ''verified'' (JBool False) []))
           = zero_response\<lparr>Error := ''Verification service response missing 'verified' field''\<rparr>"
    by (simp add: response_of_map_def index_map_def zero_response_def demo_request_def)
  from th [THEN conjunct1, rule_format, OF p] th [THEN conjunct2, rule_format, OF h] z
  show ?thesis by simp
qed

text \<open>
  Claim C4 as stated fails in the header variant: the reply \<^verbatim>\<open>{}\<close> is a JSON object
  without \<^verbatim>\<open>verified\<close>, and the answer is 200 with the body \<^verbatim>\<open>{}\<close>, in which nothing
  was synthesized.
\<close>

theorem header_variant_passthrough_counterexample:
  "json_Unmarshal_map (demo_env ''http://haproxy'') ''{}'' = Inr (Some []) \<and>
   map_of ([] :: json_map) ''verified'' = None \<and>
   Verify_hdr (demo_env ''http://haproxy'') 0 0 Map.empty
     \<lparr>Authorization = ''Bearer secret'', Bound = Inr (demo_request ''deepseek-ai/DeepSeek-R1'' [])\<rparr>
   = \<lparr>http_status = 200, http_body = RawJSON ''{}'',
      events = [KeyQuery ''secret'', KeyTouch ''alice'',
                BackendCall \<lparr>url = ''http://haproxy/verify'',
                  headers = [(''x-backend-server'', ''r1''), (''Content-Type'', ''application/json'')],
                  payload = ''{\"model\":\"deepseek-ai/DeepSeek-R1\",\"request_type\":\"completion\",\"request_params\":{},\"raw_chunks\":[]}''\<rparr>],
      cache_after = Map.empty\<rparr>"
  by (simp add: Verify_hdr_def Verify_upto_forward_def validateRequiredFields_def validateAPIKey_def
        ToLower_def lower_byte_def forward_and_respond_hdr_def forwardToValis_hdr_def
        backendServer_of_def demo_env_def demo_request_def demo_QueryRow_def demo_NewRequest_def
        demo_Marshal_request_def demo_Unmarshal_map_def)


subsection \<open>Routing by model\<close>

lemma validateAPIKey_no_backend:
  "list_all (\<lambda>ev. \<not> is_BackendCall ev) (snd (validateAPIKey e h))"
  by (simp add: validateAPIKey_def Let_def is_BackendCall_def split: sum.splits)

lemma Verify_upto_forward_no_backend:
  assumes "\<And>evs. events (continue e t_set c request evs) = evs"
    and "Bound http = Inr request"
  shows "list_all (\<lambda>ev. \<not> is_BackendCall ev)
           (events (Verify_upto_forward continue e t_get t_set c http))"
proof -
  obtain r kevs where k: "validateAPIKey e (Authorization http) = (r, kevs)"
    by (cases "validateAPIKey e (Authorization http)")
  with validateAPIKey_no_backend [of e "Authorization http"]
  have q: "list_all (\<lambda>ev. \<not> is_BackendCall ev) kevs" by simp
  show ?thesis
    using assms k q
    by (auto simp: Verify_upto_forward_def Let_def is_BackendCall_def list_all_iff
             split: sum.splits prod.splits bool.splits option.splits)
qed

lemma forwardToValis_path_unknown:
  assumes "Model request \<noteq> ''deepseek-ai/DeepSeek-R1''" "Model request \<noteq> ''deepseek-ai/DeepSeek-V3''"
  shows "forwardToValis_path e request =
           (case json_Marshal_request e request of
              Inl err \<Rightarrow> (Failed (''failed to prepare request: '' @ err), [])
            | Inr requestBody \<Rightarrow> (Failed (''unsupported model: '' @ Model request), []))"
  using assms by (simp add: forwardToValis_path_def backendPath_of_def split: sum.splits)

lemma forwardToValis_hdr_unknown:
  assumes "Model request \<noteq> ''deepseek-ai/DeepSeek-R1''" "Model request \<noteq> ''deepseek-ai/DeepSeek-V3''"
  shows "forwardToValis_hdr e request =
           (case json_Marshal_request e request of
              Inl err \<Rightarrow> (Failed (''failed to prepare request: '' @ err), [])
            | Inr requestBody \<Rightarrow>
                (case http_NewRequest e (HaproxyURL e @ ''/verify'') of
                   Some err \<Rightarrow> (Failed (''failed to create request: '' @ err), [])
                 | None \<Rightarrow> (Failed (''unsupported model: '' @ Model request), [])))"
  using assms
  by (simp add: forwardToValis_hdr_def backendServer_of_def split: sum.splits option.splits)

text \<open>
  Claim C7, as amended. For a request whose model is not exactly one of the two known
  strings, \<^verbatim>\<open>forwardToValis\<close> returns an error in both variants without calling the
  backend, and no run of the handler on such a request calls the backend. The error is
  \<^verbatim>\<open>unsupported model: \<close> followed by the model once the request has been serialised
  and, in the header variant, the outbound request has been constructed, both of which come
  before the choice of the backend there.
\<close>

theorem unknown_model_never_routed:
  assumes "Model request \<noteq> ''deepseek-ai/DeepSeek-R1''"
    and "Model request \<noteq> ''deepseek-ai/DeepSeek-V3''"
  shows "(\<exists>err. forwardToValis_path e request = (Failed err, [])) \<and>
         (\<exists>err. forwardToValis_hdr e request = (Failed err, [])) \<and>
         (\<forall>requestBody. json_Marshal_request e request = Inr requestBody \<longrightarrow>
            forwardToValis_path e request = (Failed (''unsupported model: '' @ Model request), [])) \<and>
         (\<forall>requestBody. json_Marshal_request e request = Inr requestBody \<and>
                         http_NewRequest e (HaproxyURL e @ ''/verify'') = None \<longrightarrow>
            forwardToValis_hdr e request = (Failed (''unsupported model: '' @ Model request), [])) \<and>
         (\<forall>http t_get t_set c. Bound http = Inr request \<longrightarrow>
            list_all (\<lambda>ev. \<not> is_BackendCall ev) (events (Verify_path e t_get t_set c http)) \<and>
            list_all (\<lambda>ev. \<not> is_BackendCall ev) (events (Verify_hdr e t_get t_set c http)))"
proof -
  note p = forwardToValis_path_unknown [OF assms, of e]
  note h = forwardToValis_hdr_unknown [OF assms, of e]
  have A: "\<exists>err. forwardToValis_path e request = (Failed err, [])"
    unfolding p by (simp split: sum.splits)
  have B: "\<exists>err. forwardToValis_hdr e request = (Failed err, [])"
    unfolding h by (simp split: sum.splits option.splits)
  have C: "forwardToValis_path e request = (Failed (''unsupported model: '' @ Model request), [])"
    if "json_Marshal_request e request = Inr requestBody" for requestBody
    unfolding p using that by simp
  have D: "forwardToValis_hdr e request = (Failed (''unsupported model: '' @ Model request), [])"
    if "json_Marshal_request e request = Inr requestBody \<and>
        http_NewRequest e (HaproxyURL e @ ''/verify'') = None" for requestBody
    unfolding h using that by simp
  from A obtain ep where ep: "forwardToValis_path e request = (Failed ep, [])" ..
  from B obtain eh where eh: "forwardToValis_hdr e request = (Failed eh, [])" ..
  have E: "list_all (\<lambda>ev. \<not> is_BackendCall ev) (events (Verify_path e t_get t_set c http)) \<and>
           list_all (\<lambda>ev. \<not> is_BackendCall ev) (events (Verify_hdr e t_get t_set c http))"
    if b: "Bound http = Inr request" for http t_get t_set c
  proof
    have "events (forward_and_respond_path e t_set c request evs) = evs" for evs
      by (simp add: forward_and_respond_path_def ep)
    then show "list_all (\<lambda>ev. \<not> is_BackendCall ev) (events (Verify_path e t_get t_set c http))"
      unfolding Verify_path_def using b by (rule Verify_upto_forward_no_backend)
    have "events (forward_and_respond_hdr e t_set c request evs) = evs" for evs
      by (simp add: forward_and_respond_hdr_def eh)
    then show "list_all (\<lambda>ev. \<not> is_BackendCall ev) (events (Verify_hdr e t_get t_set c http))"
      unfolding Verify_hdr_def using b by (rule Verify_upto_forward_no_backend)
  qed
  from A B C D E show ?thesis by blast
qed

theorem unknown_model_never_routed_witness:
  "forwardToValis_path (demo_env ''http://haproxy'') (demo_request ''deepseek-ai/deepseek-r1'' [])
     = (Failed ''unsupported model: deepseek-ai/deepseek-r1'', []) \<and>
   forwardToValis_hdr (demo_env ''http://haproxy'') (demo_request ''unknown-model'' [])
     = (Failed ''unsupported model: unknown-model'', []) \<and>
   list_all (\<lambda>ev. \<not> is_BackendCall ev)
     (events (Verify_hdr (demo_env ''http://haproxy'') 0 0 Map.empty
        \<lparr>Authorization = ''Bearer secret'', Bound = Inr (demo_request ''unknown-model'' [])\<rparr>))"
proof -
  let ?e = "demo_env ''http://haproxy''"
  have m1: "Model (demo_request ''deepseek-ai/deepseek-r1'' []) \<noteq> ''deepseek-ai/DeepSeek-R1''"
    and m2: "Model (demo_request ''deepseek-ai/deepseek-r1'' []) \<noteq> ''deepseek-ai/DeepSeek-V3''"
    and n1: "Model (demo_request ''unknown-model'' []) \<noteq> ''deepseek-ai/DeepSeek-R1''"
    and n2: "Model (demo_request ''unknown-model'' []) \<noteq> ''deepseek-ai/DeepSeek-V3''"
    by (simp_all add: demo_request_def)
  note t1 = unknown_model_never_routed [OF m1 m2, of ?e]
  note t2 = unknown_model_never_routed [OF n1 n2, of ?e]
  have a: "forwardToValis_path ?e (demo_request ''deepseek-ai/deepseek-r1'' [])
             = (Failed ''unsupported model: deepseek-ai/deepseek-r1'', [])"
    using t1 [THEN conjunct2, THEN conjunct2, THEN conjunct1]
    by (simp add: demo_env_def demo_Marshal_request_def demo_request_def)
  have b: "forwardToValis_hdr ?e (demo_request ''unknown-model'' [])
             = (Failed ''unsupported model: unknown-model'', [])"
    using t2 [THEN conjunct2, THEN conjunct2, THEN conjunct2, THEN conjunct1]
    by (simp add: demo_env_def demo_Marshal_request_def demo_NewRequest_def demo_request_def)
  have c: "list_all (\<lambda>ev. \<not> is_BackendCall ev)
     (events (Verify_hdr ?e 0 0 Map.empty
        \<lparr>Authorization = ''Bearer secret'', Bound = Inr (demo_request ''unknown-model'' [])\<rparr>))"
    using t2 [THEN conjunct2, THEN conjunct2, THEN conjunct2, THEN conjunct2, rule_format,
              of "\<lparr>Authorization = ''Bearer secret'', Bound = Inr (demo_request ''unknown-model'' [])\<rparr>" 0 0 Map.empty]
    by simp
  from a b c show ?thesis by simp
qed

text \<open>
  Claim C7 as stated fails in the header variant when the configured base URL is an
  address and port without a scheme: \<^verbatim>\<open>http.NewRequest\<close> fails before the model is looked
  at, and the error of the forwarding step is that failure, not an unsupported-model error.
\<close>

theorem unknown_model_bad_url_counterexample:
  "Model (demo_request ''unknown-model'' []) \<noteq> ''deepseek-ai/DeepSeek-R1'' \<and>
   Model (demo_request ''unknown-model'' []) \<noteq> ''deepseek-ai/DeepSeek-V3'' \<and>
   forwardToValis_hdr (demo_env ''10.0.0.5:8080'') (demo_request ''unknown-model'' [])
     = (Failed ''failed to create request: parse \"10.0.0.5:8080/verify\": first path segment in URL cannot contain colon'', []) \<and>
   Verify_hdr (demo_env ''10.0.0.5:8080'') 0 0 Map.empty
     \<lparr>Authorization = ''Bearer secret'', Bound = Inr (demo_request ''unknown-model'' [])\<rparr>
   = \<lparr>http_status = 500,
      http_body = ErrorEnvelope ''Verification service error: failed to create request: parse \"10.0.0.5:8080/verify\": first path segment in URL cannot contain colon'',
      events = [KeyQuery ''secret'', KeyTouch ''alice''], cache_after = Map.empty\<rparr>"
  by (simp add: Verify_hdr_def Verify_upto_forward_def validateRequiredFields_def validateAPIKey_def
        ToLower_def lower_byte_def forward_and_respond_hdr_def forwardToValis_hdr_def
        backendServer_of_def demo_env_def demo_request_def demo_QueryRow_def demo_NewRequest_def
        demo_Marshal_request_def)



section \<open>Properties of the cache under concurrent use\<close>

text \<open>
  An entry that has not expired stays as it is through every body except a \<open>Set\<close> of the
  same key and the deferred delete of the same key.
\<close>

lemma step_keeps_entry:
  assumes "store s k = Some entry" "now \<le> ExpiresAt entry" "step now a s = Some (out, s')"
    and "a \<noteq> RunDelete k" "\<forall>v ttl. a \<noteq> DoSet k v ttl"
  shows "store s' k = Some entry"
  using assms
  by (cases a)
     (auto simp: step_def Let_def Set_entry_def Cleanup_def Cleanup_loop_lookup lazy_delete_def
           split: if_splits)


lemma run_keeps_entry:
  assumes "store s k = Some entry"
    and "\<forall>(now, a) \<in> set sched. now \<le> ExpiresAt entry \<and> a \<noteq> RunDelete k \<and> (\<forall>v ttl. a \<noteq> DoSet k v ttl)"
    and "run sched s = Some (outs, s')"
  shows "store s' k = Some entry"
  using assms
proof (induction sched arbitrary: s outs)
  case Nil
  then show ?case by simp
next
  case (Cons x sched)
  obtain now a where x: "x = (now, a)" by (cases x)
  from Cons.prems(3) x obtain out s1 outs1 where
    st: "step now a s = Some (out, s1)" and rn: "run sched s1 = Some (outs1, s')"
    by (auto split: option.splits)
  from Cons.prems(2) x have ok: "now \<le> ExpiresAt entry" "a \<noteq> RunDelete k" "\<forall>v ttl. a \<noteq> DoSet k v ttl"
    by auto
  have "store s1 k = Some entry"
    using Cons.prems(1) ok(1) st ok(2,3) by (rule step_keeps_entry)
  moreover from Cons.prems(2) have
    "\<forall>(now, a) \<in> set sched. now \<le> ExpiresAt entry \<and> a \<noteq> RunDelete k \<and> (\<forall>v ttl. a \<noteq> DoSet k v ttl)"
    by auto
  ultimately show ?case using rn by (rule Cons.IH)
qed

text \<open>
  Claim C9 does not hold of the code. \<open>Set\<close> stores \<^verbatim>\<open>old\<close> with a TTL of 1 at instant
  0; a \<open>Get\<close> at 5 finds the entry expired, answers not found and dispatches the delete;
  a \<open>Set\<close> at 6 stores \<^verbatim>\<open>new\<close> with a TTL of 100 and completes; the dispatched delete
  takes the lock at 7 and removes the key without looking at the entry; the \<open>Get\<close> at 8,
  long before the expiry at 106, answers not found. In the same sequence without the
  deferred delete the last \<open>Get\<close> returns \<^verbatim>\<open>new\<close>.
\<close>

theorem deferred_delete_removes_fresh_entry:
  "sorted (map fst [(0::int, DoSet ''k'' ''old'' 1), (5, DoGet ''k''), (6, DoSet ''k'' ''new'' 100),
                    (7, RunDelete ''k''), (8, DoGet ''k'')]) \<and>
   run [(0, DoSet ''k'' ''old'' 1), (5, DoGet ''k''), (6, DoSet ''k'' ''new'' 100),
        (7, RunDelete ''k''), (8, DoGet ''k'')]
       \<lparr>store = NewVerificationCache, pending = []\<rparr>
     = Some ([\<lparr>ret_value = [], ret_found = False, dispatched = [''k'']\<rparr>,
              \<lparr>ret_value = [], ret_found = False, dispatched = []\<rparr>],
             \<lparr>store = Map.empty, pending = []\<rparr>) \<and>
   run [(0, DoSet ''k'' ''old'' 1), (5, DoGet ''k''), (6, DoSet ''k'' ''new'' 100), (8, DoGet ''k'')]
       \<lparr>store = NewVerificationCache, pending = []\<rparr>
     = Some ([\<lparr>ret_value = [], ret_found = False, dispatched = [''k'']\<rparr>,
              \<lparr>ret_value = ''new'', ret_found = True, dispatched = []\<rparr>],
             \<lparr>store = [''k'' \<mapsto> \<lparr>Response = ''new'', ExpiresAt = 106\<rparr>], pending = [''k'']\<rparr>)"
  by (simp add: step_def Get_def Set_entry_def After_def Add_def lazy_delete_def
        NewVerificationCache_def)




end
